theory Spec2Isabelle
  imports Main "HOL-Library.Word"
begin

section \<open>Values, kinds, errors\<close>

text \<open>
  A parameter reaches the binder as a Go \<^verbatim>\<open>interface{}\<close>.  The code inspects it by
  reflection, so the model keeps what reflection can tell apart:
  the nil interface, a driver-native scalar, a pointer (nil, to a value of a concrete
  type, or to an interface variable), a \<^verbatim>\<open>[]interface{}\<close>, a slice of any other type,
  an array, a \<^verbatim>\<open>map[string]interface{}\<close> (possibly the nil map), a map of any other
  type, and a struct (with the flag "implements driver.Valuer" and, per field, its name,
  whether it is exported, and its value).
\<close>

datatype mkey = KString string | KOther int

datatype val =
    VNil
  | VScalar int
  | VPtr "val option"
  | VPtrIface val
  | VISlice "val list"
  | VTSlice "val list"
  | VArray "val list"
  | VMapSI "(string \<times> val) list option"
  | VMapOther "(mkey \<times> val) list"
  | VStruct bool "(string \<times> bool \<times> val) list"

datatype kind = Scalar | Ptr | Slice | Array | Map | Struct | Interface

text \<open>\<^verbatim>\<open>reflect.TypeOf(v).Kind()\<close>; \<open>None\<close> is the nil type of the nil interface, on
  which \<^verbatim>\<open>Kind()\<close> panics.\<close>

fun kindOf :: "val \<Rightarrow> kind option" where
  "kindOf VNil = None"
| "kindOf (VScalar _) = Some Scalar"
| "kindOf (VPtr _) = Some Ptr"
| "kindOf (VPtrIface _) = Some Ptr"
| "kindOf (VISlice _) = Some Slice"
| "kindOf (VTSlice _) = Some Slice"
| "kindOf (VArray _) = Some Array"
| "kindOf (VMapSI _) = Some Map"
| "kindOf (VMapOther _) = Some Map"
| "kindOf (VStruct _ _) = Some Struct"

datatype panic = NilDereference | ReflectPanic | IndexOutOfRange | SliceBounds | PanicValue string

record ColumnBind =
  name :: string
  holdPos :: int
  bindType :: "8 word"

definition columnBindTypeNormal :: "8 word" where "columnBindTypeNormal = 0"
definition columnBindTypeArray :: "8 word" where "columnBindTypeArray = 1"

definition NewColumnBind :: "string \<Rightarrow> int \<Rightarrow> ColumnBind" where
  "NewColumnBind n pos = \<lparr>name = n, holdPos = pos, bindType = columnBindTypeNormal\<rparr>"

definition NewColumnBindArray :: "string \<Rightarrow> int \<Rightarrow> ColumnBind" where
  "NewColumnBindArray n pos = \<lparr>name = n, holdPos = pos, bindType = columnBindTypeArray\<rparr>"

text \<open>The package's error values, and one constructor per \<^verbatim>\<open>fmt.Errorf\<close> site (its
  arguments are the values the message is formatted from).  \<open>ErrBadConn\<close> is
  \<^verbatim>\<open>driver.ErrBadConn\<close>; \<open>DriverError\<close> is any other error of the backing store.\<close>

datatype error =
    ErrInterfaceIsNotSupported
  | ErrPtrIsNotSupported
  | ErrInvalidMapKeyType
  | ErrInvalidMapType
  | ErrQueryNeedsPtrParameter
  | ErrNilPtr
  | ErrNoRows
  | ErrNoInsertId
  | ErrBadConn
  | DriverError string
  | ErrBindCountMismatch nat nat
  | ErrBindCountMismatchAt nat nat nat
  | ErrNotFoundParam ColumnBind
  | ErrStructNotFoundParam ColumnBind
  | ErrNotFoundFromMap val
  | ErrOnlyOneArrayBinding
  | ErrNestedNotSlice nat
  | ErrNestedNotMap nat
  | ErrFailLastInsertId error
  | ErrFailToScan panic
  | ErrFailToExecute panic
  | ErrFailToBuildConditional error

datatype fault = Failed error | Panicked panic

section \<open>The statement model (domain.go)\<close>

record IfClause =
  clause_id :: string
  key :: string
  query :: string
  exist :: bool

text \<open>The struct \<^verbatim>\<open>QueryStatement\<close>.  Its two slice fields are type parameters: the
  binder reads them by value (lists); the refinement section below keeps them as
  references into a store, where sharing of the backing arrays matters.\<close>

record ('c, 'm) QueryStatement =
  eleType :: "8 word"
  stmtId :: string
  Query :: string
  clause :: 'c
  columnMention :: 'm
  HoldedQuery :: string

type_synonym statement = "(IfClause list, ColumnBind list) QueryStatement"

definition eleTypeUnknown :: "8 word" where "eleTypeUnknown = 0"
definition eleTypeInsert :: "8 word" where "eleTypeInsert = 1"
definition eleTypeUpdate :: "8 word" where "eleTypeUpdate = 2"
definition eleTypeSelect :: "8 word" where "eleTypeSelect = 3"
definition eleTypeIf :: "8 word" where "eleTypeIf = 4"

definition hasArrayBind :: "statement \<Rightarrow> bool" where
  "hasArrayBind q = list_ex (\<lambda>v. bindType v = columnBindTypeArray) (columnMention q)"

definition firstArgsIsArray :: "statement \<Rightarrow> bool" where
  "firstArgsIsArray q =
     (case columnMention q of [] \<Rightarrow> False | v # _ \<Rightarrow> bindType v = columnBindTypeArray)"


text \<open>\<^verbatim>\<open>clone\<close>: the scalar fields are copied, the two slices are rebuilt element by
  element.\<close>

definition clone :: "statement \<Rightarrow> statement" where
  "clone stmt =
     \<lparr>eleType = eleType stmt, stmtId = stmtId stmt, Query = Query stmt,
      clause = foldl (\<lambda>c v. c @ [v]) [] (clause stmt),
      columnMention = foldl (\<lambda>c v. c @ [v]) [] (columnMention stmt),
      HoldedQuery = HoldedQuery stmt\<rparr>"

section \<open>Array (IN-clause) expansion and column binding\<close>

text \<open>\<^verbatim>\<open>flattenArray\<close>.  The branches, in the order of the source:
  nil interface (\<^verbatim>\<open>TypeOf(nil).Kind()\<close> panics); nil pointer; not a slice or array
  (after one dereference): the value itself, count 1; a \<^verbatim>\<open>[]interface{}\<close>: its items,
  and the count is the index of the last item (0 for the empty slice); any other slice
  or array: its items and its length.  In the last branch the source reflects on the
  argument \<^verbatim>\<open>v\<close>, not on the dereferenced value, so a pointer to a slice panics in
  \<^verbatim>\<open>Len\<close>, and a pointer to an array (on which \<^verbatim>\<open>Len\<close> is defined) panics in
  \<^verbatim>\<open>Index\<close> unless the array is empty.\<close>

fun flattenArray :: "val \<Rightarrow> panic + (val list \<times> nat)" where
  "flattenArray VNil = Inl NilDereference"
| "flattenArray (VPtr None) = Inr ([], 1)"
| "flattenArray (VPtr (Some (VISlice xs))) = Inr (xs, length xs - 1)"
| "flattenArray (VPtr (Some (VTSlice xs))) = Inl ReflectPanic"
| "flattenArray (VPtr (Some (VArray xs))) = (if xs = [] then Inr ([], 0) else Inl ReflectPanic)"
| "flattenArray (VPtr (Some x)) = Inr ([VPtr (Some x)], 1)"
| "flattenArray (VISlice xs) = Inr (xs, length xs - 1)"
| "flattenArray (VTSlice xs) = Inr (xs, length xs)"
| "flattenArray (VArray xs) = Inr (xs, length xs)"
| "flattenArray v = Inr ([v], 1)"

text \<open>\<^verbatim>\<open>reformArrayHold\<close>; the constant \<^verbatim>\<open>holdByte\<close> belongs to the normalizer
  and is a parameter \<open>hb\<close>.\<close>

fun holdLoop :: "char \<Rightarrow> nat \<Rightarrow> nat \<Rightarrow> string \<Rightarrow> string" where
  "holdLoop hb i 0 buf = buf"
| "holdLoop hb i (Suc n) buf =
     holdLoop hb (Suc i) n ((if i > 0 then buf @ [CHR '',''] else buf) @ [hb])"

definition reformArrayHold :: "char \<Rightarrow> nat \<Rightarrow> string" where
  "reformArrayHold hb cnt =
     (if cnt = 0 then [] else if cnt = 1 then [hb] else holdLoop hb 0 cnt [])"

text \<open>\<^verbatim>\<open>reformHoldQuery\<close>: the two slice expressions panic unless
  \<open>1 \<le> holdPos \<le> len(holdQuery)\<close>.\<close>

definition reformHoldQuery :: "char \<Rightarrow> string \<Rightarrow> ColumnBind \<Rightarrow> nat \<Rightarrow> panic + string" where
  "reformHoldQuery hb holdQuery columnBind cnt =
     (if 1 \<le> holdPos columnBind \<and> holdPos columnBind \<le> int (length holdQuery)
      then Inr (take (nat (holdPos columnBind - 1)) holdQuery
                @ reformArrayHold hb cnt
                @ drop (nat (holdPos columnBind)) holdQuery)
      else Inl SliceBounds)"

text \<open>The loop of \<^verbatim>\<open>resolveColumnBindInList\<close> over \<^verbatim>\<open>clone.columnMention\<close>.  The source
  reads \<^verbatim>\<open>args[i]\<close> for the \<open>i\<close>-th column; the model walks both lists together.  The
  loop state is \<open>(param, holdedQuery, touch)\<close>.\<close>

fun bindInList ::
  "char \<Rightarrow> ColumnBind list \<Rightarrow> val list \<Rightarrow> val list \<Rightarrow> string \<Rightarrow> bool
     \<Rightarrow> fault + (val list \<times> string \<times> bool)" where
  "bindInList hb [] args param hq touch = Inr (param, hq, touch)"
| "bindInList hb (v # cols) [] param hq touch = Inl (Panicked IndexOutOfRange)"
| "bindInList hb (v # cols) (found # args) param hq touch =
     (if bindType v = columnBindTypeNormal then bindInList hb cols args (param @ [found]) hq touch
      else if bindType v = columnBindTypeArray then
        (case flattenArray found of
           Inl p \<Rightarrow> Inl (Panicked p)
         | Inr (arr, cnt) \<Rightarrow>
             if cnt > 1 then
               (if touch then Inl (Failed ErrOnlyOneArrayBinding)
                else (case reformHoldQuery hb hq v cnt of
                        Inl p \<Rightarrow> Inl (Panicked p)
                      | Inr hq' \<Rightarrow> bindInList hb cols args (param @ arr) hq' True))
             else bindInList hb cols args (param @ arr) hq touch)
      else bindInList hb cols args (param @ [found]) hq touch)"

text \<open>\<^verbatim>\<open>resolveColumnBindInList\<close>; \<open>rh\<close> is the normalizer's \<^verbatim>\<open>resolveHolding\<close>.\<close>

definition resolveColumnBindInList ::
  "char \<Rightarrow> (string \<Rightarrow> string) \<Rightarrow> statement \<Rightarrow> val list \<Rightarrow> fault + (string \<times> val list)" where
  "resolveColumnBindInList hb rh stmt args =
     (if \<not> hasArrayBind stmt then Inr (Query stmt, args)
      else
        let cl = clone stmt; effectiveQuery = Query cl; holdedQuery = HoldedQuery cl in
        if length (columnMention cl) > length args
        then Inl (Failed (ErrBindCountMismatch (length (columnMention stmt)) (length args)))
        else (case bindInList hb (columnMention cl) args [] holdedQuery False of
                Inl f \<Rightarrow> Inl f
              | Inr (param, hq, touch) \<Rightarrow>
                  Inr (if touch then rh hq else effectiveQuery, param)))"

text \<open>\<^verbatim>\<open>resolveColumnBindInMap\<close>.  Without an array binding every column is looked up
  with the two-value form and a missing name is an error.  With an array binding the
  lookup is the one-value form \<^verbatim>\<open>m[v.Name()]\<close>, which yields the nil interface for a
  missing name.\<close>

fun lookupColumns :: "ColumnBind list \<Rightarrow> (string \<rightharpoonup> val) \<Rightarrow> val list \<Rightarrow> error + val list" where
  "lookupColumns [] m param = Inr param"
| "lookupColumns (v # cols) m param =
     (case m (name v) of
        None \<Rightarrow> Inl (ErrNotFoundParam v)
      | Some found \<Rightarrow> lookupColumns cols m (param @ [found]))"

definition index_or_nil :: "(string \<rightharpoonup> val) \<Rightarrow> string \<Rightarrow> val" where
  "index_or_nil m k = (case m k of None \<Rightarrow> VNil | Some x \<Rightarrow> x)"

fun bindInMap ::
  "char \<Rightarrow> ColumnBind list \<Rightarrow> (string \<rightharpoonup> val) \<Rightarrow> val list \<Rightarrow> string \<Rightarrow> bool
     \<Rightarrow> fault + (val list \<times> string \<times> bool)" where
  "bindInMap hb [] m param hq touch = Inr (param, hq, touch)"
| "bindInMap hb (v # cols) m param hq touch =
     (let found = index_or_nil m (name v) in
      if bindType v = columnBindTypeNormal then bindInMap hb cols m (param @ [found]) hq touch
      else if bindType v = columnBindTypeArray then
        (case flattenArray found of
           Inl p \<Rightarrow> Inl (Panicked p)
         | Inr (arr, cnt) \<Rightarrow>
             if cnt > 1 then
               (if touch then Inl (Failed ErrOnlyOneArrayBinding)
                else (case reformHoldQuery hb hq v cnt of
                        Inl p \<Rightarrow> Inl (Panicked p)
                      | Inr hq' \<Rightarrow> bindInMap hb cols m (param @ arr) hq' True))
             else bindInMap hb cols m (param @ arr) hq touch)
      else bindInMap hb cols m (param @ [found]) hq touch)"

definition resolveColumnBindInMap ::
  "char \<Rightarrow> (string \<Rightarrow> string) \<Rightarrow> statement \<Rightarrow> (string \<rightharpoonup> val) \<Rightarrow> fault + (string \<times> val list)" where
  "resolveColumnBindInMap hb rh stmt m =
     (if \<not> hasArrayBind stmt then
        (case lookupColumns (columnMention stmt) m [] of
           Inl e \<Rightarrow> Inl (Failed e)
         | Inr param \<Rightarrow> Inr (Query stmt, param))
      else
        let cl = clone stmt; effectiveQuery = Query cl; holdedQuery = HoldedQuery cl in
        (case bindInMap hb (columnMention cl) m [] holdedQuery False of
           Inl f \<Rightarrow> Inl f
         | Inr (param, hq, touch) \<Rightarrow>
             Inr (if touch then rh hq else effectiveQuery, param)))"

section \<open>The execution proxy and the batch executor\<close>

text \<open>The backing store is outside the code.  A \<open>driver\<close> fixes what it answers: the
  outcome of the \<open>n\<close>-th \<^verbatim>\<open>prepare\<close> call and of the \<open>n\<close>-th \<^verbatim>\<open>Exec\<close> call (counted
  from 0 over the connection's life).  A \<open>conn\<close> records what the code did to it: the
  number of \<^verbatim>\<open>prepare\<close> calls, the number of \<^verbatim>\<open>Close\<close> calls on prepared statements,
  and every \<^verbatim>\<open>Exec\<close> call with its query and arguments, in order.  The debugger half of
  the proxy (\<^verbatim>\<open>debugEnabled\<close>, \<^verbatim>\<open>debugPrint\<close>, \<^verbatim>\<open>recordExcution\<close>) is left out: the
  model is the program with debug printing off.\<close>

record sql_result =
  rowsAffected :: "64 word"
  lastInsertId :: "error + 64 word"

record driver =
  prepare_res :: "nat \<Rightarrow> string \<Rightarrow> error option"
  exec_res :: "nat \<Rightarrow> string \<Rightarrow> val list \<Rightarrow> error + sql_result"

record conn =
  prepare_calls :: nat
  close_calls :: nat
  exec_log :: "(string \<times> val list) list"

text \<open>\<^verbatim>\<open>ExecMultiResult\<close> (result.go); \<open>None\<close> is the nil slice.\<close>

record ExecMultiResult =
  idList :: "64 word list option"
  rowAffected :: "64 word"

definition emptyResult :: ExecMultiResult where
  "emptyResult = \<lparr>idList = None, rowAffected = 0\<rparr>"

definition sliceItems :: "'a list option \<Rightarrow> 'a list" where
  "sliceItems s = (case s of None \<Rightarrow> [] | Some xs \<Rightarrow> xs)"

text \<open>Go's \<^verbatim>\<open>append(s, t...)\<close>: with nothing to append the slice is returned as it is
  (nil stays nil).\<close>

definition appendSlice :: "'a list option \<Rightarrow> 'a list option \<Rightarrow> 'a list option" where
  "appendSlice s t = (if sliceItems t = [] then s else Some (sliceItems s @ sliceItems t))"

definition addInsertId :: "ExecMultiResult \<Rightarrow> 64 word \<Rightarrow> ExecMultiResult" where
  "addInsertId p i = p\<lparr>idList := Some (sliceItems (idList p) @ [i])\<rparr>"

definition GetInsertIdList :: "ExecMultiResult \<Rightarrow> 64 word list option" where
  "GetInsertIdList p = idList p"

definition LastInsertId :: "ExecMultiResult \<Rightarrow> 64 word \<times> error option" where
  "LastInsertId p =
     (case idList p of
        None \<Rightarrow> (0, Some ErrNoInsertId)
      | Some [] \<Rightarrow> (0, Some ErrNoInsertId)
      | Some (x # _) \<Rightarrow> (x, None))"

definition RowsAffected :: "ExecMultiResult \<Rightarrow> 64 word \<times> error option" where
  "RowsAffected p = (rowAffected p, None)"

text \<open>\<^verbatim>\<open>sqlProxy.exec\<close>, as \<^verbatim>\<open>execWithMap\<close> calls it.\<close>

definition proxy_exec ::
  "driver \<Rightarrow> conn \<Rightarrow> string \<Rightarrow> val list \<Rightarrow> (fault + sql_result) \<times> conn" where
  "proxy_exec drv cn q args =
     (case exec_res drv (length (exec_log cn)) q args of
        Inl e \<Rightarrow> Inl (Failed e)
      | Inr r \<Rightarrow> Inr r,
      cn\<lparr>exec_log := exec_log cn @ [(q, args)]\<rparr>)"

definition execWithMap ::
  "driver \<Rightarrow> conn \<Rightarrow> char \<Rightarrow> (string \<Rightarrow> string) \<Rightarrow> statement \<Rightarrow> (string \<rightharpoonup> val)
     \<Rightarrow> (fault + sql_result) \<times> conn" where
  "execWithMap drv cn hb rh stmt m =
     (case resolveColumnBindInMap hb rh stmt m of
        Inl f \<Rightarrow> (Inl f, cn)
      | Inr (effectiveQuery, param) \<Rightarrow> proxy_exec drv cn effectiveQuery param)"

text \<open>The three batch loops of the source execute a row and accumulate its result with
  the same statements: \<^verbatim>\<open>pstmt.Exec\<close>, on failure return the result so far; add the
  affected count; for an insert statement fetch the generated id, on failure return (the
  count already added), else append it.\<close>

definition execRow ::
  "driver \<Rightarrow> statement \<Rightarrow> val list \<Rightarrow> ExecMultiResult \<Rightarrow> conn
     \<Rightarrow> (error option \<times> ExecMultiResult) \<times> conn" where
  "execRow drv stmt param result cn =
     (let cn' = cn\<lparr>exec_log := exec_log cn @ [(Query stmt, param)]\<rparr> in
      case exec_res drv (length (exec_log cn)) (Query stmt) param of
        Inl e \<Rightarrow> ((Some e, result), cn')
      | Inr res \<Rightarrow>
          let result' = result\<lparr>rowAffected := rowAffected result + rowsAffected res\<rparr> in
          if eleType stmt = eleTypeInsert then
            (case lastInsertId res of
               Inl e \<Rightarrow> ((Some (ErrFailLastInsertId e), result'), cn')
             | Inr i \<Rightarrow> ((None, addInsertId result' i), cn'))
          else ((None, result'), cn'))"

text \<open>The iterate phase.  \<open>row\<close> turns one batch element into the argument list of its
  execution, or fails; it is the only part in which the three loops differ.  The result
  is a panic, or the early return \<open>(i, err)\<close> if there was one, with the result
  accumulated.\<close>

fun iterateRows ::
  "(val \<Rightarrow> fault + val list) \<Rightarrow> driver \<Rightarrow> statement \<Rightarrow> nat \<Rightarrow> val list \<Rightarrow> ExecMultiResult
     \<Rightarrow> conn \<Rightarrow> (panic + ((nat \<times> error) option \<times> ExecMultiResult)) \<times> conn" where
  "iterateRows row drv stmt i [] result cn = (Inr (None, result), cn)"
| "iterateRows row drv stmt i (v # args) result cn =
     (case row v of
        Inl (Panicked p) \<Rightarrow> (Inl p, cn)
      | Inl (Failed e) \<Rightarrow> (Inr (Some (i, e), result), cn)
      | Inr param \<Rightarrow>
          (case execRow drv stmt param result cn of
             ((Some e, result'), cn') \<Rightarrow> (Inr (Some (i, e), result'), cn')
           | ((None, result'), cn') \<Rightarrow> iterateRows row drv stmt (Suc i) args result' cn'))"

text \<open>The prepare phase, the iterate phase under \<^verbatim>\<open>defer pstmt.Close()\<close>, and the
  return values \<open>(executed, result, err)\<close>.\<close>

type_synonym batch_return = "panic + (nat \<times> ExecMultiResult \<times> error option)"

definition prepareAndIterate ::
  "(val \<Rightarrow> fault + val list) \<Rightarrow> driver \<Rightarrow> conn \<Rightarrow> statement \<Rightarrow> val list
     \<Rightarrow> batch_return \<times> conn" where
  "prepareAndIterate row drv cn stmt args =
     (let cn1 = cn\<lparr>prepare_calls := Suc (prepare_calls cn)\<rparr> in
      case prepare_res drv (prepare_calls cn) (Query stmt) of
        Some e \<Rightarrow> (Inr (0, emptyResult, Some e), cn1)
      | None \<Rightarrow>
          (case iterateRows row drv stmt 0 args emptyResult cn1 of
             (r, cn2) \<Rightarrow>
               (case r of
                  Inl p \<Rightarrow> Inl p
                | Inr (Some (i, e), result) \<Rightarrow> Inr (i, result, Some e)
                | Inr (None, result) \<Rightarrow> Inr (length args, result, None),
                cn2\<lparr>close_calls := Suc (close_calls cn2)\<rparr>)))"

text \<open>The retry wrapper shared by \<^verbatim>\<open>execWithNestedList\<close>, \<^verbatim>\<open>execWithNestedMap\<close> and
  \<^verbatim>\<open>execWithStructList\<close>: on \<^verbatim>\<open>driver.ErrBadConn\<close> the batch is run once more on
  \<^verbatim>\<open>args[executed:]\<close>, and merged only if that run returns no error.\<close>

definition retryOnBadConn ::
  "(conn \<Rightarrow> val list \<Rightarrow> batch_return \<times> conn) \<Rightarrow> conn \<Rightarrow> val list
     \<Rightarrow> (panic + (ExecMultiResult \<times> error option)) \<times> conn" where
  "retryOnBadConn doExec cn args =
     (case doExec cn args of
        (Inl p, cn1) \<Rightarrow> (Inl p, cn1)
      | (Inr (executed, result, err), cn1) \<Rightarrow>
          if err = Some ErrBadConn then
            (case doExec cn1 (drop executed args) of
               (Inl p, cn2) \<Rightarrow> (Inl p, cn2)
             | (Inr (_, nextResult, err'), cn2) \<Rightarrow>
                 if err' = None
                 then (Inr (result\<lparr>idList := appendSlice (idList result) (idList nextResult),
                                   rowAffected := rowAffected result + rowAffected nextResult\<rparr>,
                            None), cn2)
                 else (Inr (result, err'), cn2))
          else (Inr (result, err), cn1))"

subsection \<open>Nested lists\<close>

text \<open>\<^verbatim>\<open>reflect.ValueOf(v).Len()\<close> on the kinds the validate loops call it on.\<close>

fun valueLen :: "val \<Rightarrow> nat option" where
  "valueLen (VISlice xs) = Some (length xs)"
| "valueLen (VTSlice xs) = Some (length xs)"
| "valueLen (VArray xs) = Some (length xs)"
| "valueLen (VMapSI m) = Some (length (remdups (map fst (sliceItems m))))"
| "valueLen (VMapOther m) = Some (length (remdups (map fst m)))"
| "valueLen _ = None"

text \<open>\<^verbatim>\<open>flattenToList\<close>.  It is called on values whose kind was checked to be slice
  or array; on a value of another kind the reflection calls are taken to panic.\<close>

fun flattenToList :: "val \<Rightarrow> panic + val list" where
  "flattenToList (VISlice xs) = Inr xs"
| "flattenToList (VTSlice xs) = Inr xs"
| "flattenToList (VArray xs) = Inr xs"
| "flattenToList _ = Inl ReflectPanic"

fun validateList :: "statement \<Rightarrow> nat \<Rightarrow> val list \<Rightarrow> fault option" where
  "validateList stmt i [] = None"
| "validateList stmt i (v # args) =
     (case kindOf v of
        None \<Rightarrow> Some (Panicked NilDereference)
      | Some k \<Rightarrow>
          if k \<noteq> Slice \<and> k \<noteq> Array then Some (Failed (ErrNestedNotSlice i))
          else (case valueLen v of
                  None \<Rightarrow> Some (Panicked ReflectPanic)
                | Some n \<Rightarrow>
                    if length (columnMention stmt) > n
                    then Some (Failed (ErrBindCountMismatchAt (length (columnMention stmt)) i n))
                    else validateList stmt (Suc i) args))"

definition rowOfList :: "val \<Rightarrow> fault + val list" where
  "rowOfList v = (case flattenToList v of Inl p \<Rightarrow> Inl (Panicked p) | Inr passing \<Rightarrow> Inr passing)"

definition doExecWithNestedList ::
  "driver \<Rightarrow> conn \<Rightarrow> statement \<Rightarrow> val list \<Rightarrow> batch_return \<times> conn" where
  "doExecWithNestedList drv cn stmt args =
     (case validateList stmt 0 args of
        Some (Panicked p) \<Rightarrow> (Inl p, cn)
      | Some (Failed e) \<Rightarrow> (Inr (0, emptyResult, Some e), cn)
      | None \<Rightarrow> prepareAndIterate rowOfList drv cn stmt args)"

definition execWithNestedList ::
  "driver \<Rightarrow> conn \<Rightarrow> statement \<Rightarrow> val list \<Rightarrow> (panic + (ExecMultiResult \<times> error option)) \<times> conn" where
  "execWithNestedList drv cn stmt args =
     retryOnBadConn (\<lambda>c a. doExecWithNestedList drv c stmt a) cn args"

subsection \<open>Lists of maps\<close>

fun validateMap :: "statement \<Rightarrow> nat \<Rightarrow> val list \<Rightarrow> fault option" where
  "validateMap stmt i [] = None"
| "validateMap stmt i (v # args) =
     (case kindOf v of
        None \<Rightarrow> Some (Panicked NilDereference)
      | Some k \<Rightarrow>
          if k \<noteq> Map then Some (Failed (ErrNestedNotMap i))
          else (case valueLen v of
                  None \<Rightarrow> Some (Panicked ReflectPanic)
                | Some n \<Rightarrow>
                    if length (columnMention stmt) > n
                    then Some (Failed (ErrBindCountMismatchAt (length (columnMention stmt)) i n))
                    else validateMap stmt (Suc i) args))"

text \<open>The inner loop over the columns, for a list of maps (the error is formatted from
  the row) and for a list of structs (the error is formatted from the column).\<close>

fun lookupRow ::
  "(ColumnBind \<Rightarrow> error) \<Rightarrow> ColumnBind list \<Rightarrow> (string \<rightharpoonup> val) \<Rightarrow> val list \<Rightarrow> error + val list" where
  "lookupRow mk [] m param = Inr param"
| "lookupRow mk (v2 # cols) m param =
     (case m (name v2) of
        None \<Rightarrow> Inl (mk v2)
      | Some found \<Rightarrow> lookupRow mk cols m (param @ [found]))"

definition rowOfMap :: "statement \<Rightarrow> val \<Rightarrow> fault + val list" where
  "rowOfMap stmt v =
     (case v of
        VMapSI m \<Rightarrow>
          (case lookupRow (\<lambda>_. ErrNotFoundFromMap v) (columnMention stmt) (map_of (sliceItems m)) [] of
             Inl e \<Rightarrow> Inl (Failed e)
           | Inr param \<Rightarrow> Inr param)
      | _ \<Rightarrow> Inl (Failed ErrInvalidMapType))"

definition doExecWithNestedMap ::
  "driver \<Rightarrow> conn \<Rightarrow> statement \<Rightarrow> val list \<Rightarrow> batch_return \<times> conn" where
  "doExecWithNestedMap drv cn stmt args =
     (case validateMap stmt 0 args of
        Some (Panicked p) \<Rightarrow> (Inl p, cn)
      | Some (Failed e) \<Rightarrow> (Inr (0, emptyResult, Some e), cn)
      | None \<Rightarrow> prepareAndIterate (rowOfMap stmt) drv cn stmt args)"

definition execWithNestedMap ::
  "driver \<Rightarrow> conn \<Rightarrow> statement \<Rightarrow> val list \<Rightarrow> (panic + (ExecMultiResult \<times> error option)) \<times> conn" where
  "execWithNestedMap drv cn stmt args =
     retryOnBadConn (\<lambda>c a. doExecWithNestedMap drv c stmt a) cn args"

subsection \<open>Lists of structs\<close>

text \<open>\<^verbatim>\<open>flattenStructToMap\<close>: the exported fields by name; \<^verbatim>\<open>NumField\<close> panics on a
  value that is not a struct.\<close>

fun flattenStructToMap :: "val \<Rightarrow> panic + (string \<rightharpoonup> val)" where
  "flattenStructToMap (VStruct _ fs) =
     Inr (foldl (\<lambda>m (f, exported, fv). if exported then m(f \<mapsto> fv) else m) Map.empty fs)"
| "flattenStructToMap VNil = Inl NilDereference"
| "flattenStructToMap _ = Inl ReflectPanic"

definition rowOfStruct :: "statement \<Rightarrow> val \<Rightarrow> fault + val list" where
  "rowOfStruct stmt v =
     (case kindOf v of
        None \<Rightarrow> Inl (Panicked NilDereference)
      | Some k \<Rightarrow>
          (case (case v of
                   VPtr None \<Rightarrow> Inl (Failed ErrNilPtr)
                 | VPtr (Some x) \<Rightarrow> Inr x
                 | VPtrIface x \<Rightarrow> Inr x
                 | _ \<Rightarrow> Inr v) of
             Inl f \<Rightarrow> Inl f
           | Inr val \<Rightarrow>
               (case flattenStructToMap val of
                  Inl p \<Rightarrow> Inl (Panicked p)
                | Inr m \<Rightarrow>
                    (case lookupRow ErrStructNotFoundParam (columnMention stmt) m [] of
                       Inl e \<Rightarrow> Inl (Failed e)
                     | Inr param \<Rightarrow> Inr param))))"

definition doExecWithStructList ::
  "driver \<Rightarrow> conn \<Rightarrow> statement \<Rightarrow> val list \<Rightarrow> batch_return \<times> conn" where
  "doExecWithStructList drv cn stmt args = prepareAndIterate (rowOfStruct stmt) drv cn stmt args"

definition execWithStructList ::
  "driver \<Rightarrow> conn \<Rightarrow> statement \<Rightarrow> val list \<Rightarrow> (panic + (ExecMultiResult \<times> error option)) \<times> conn" where
  "execWithStructList drv cn stmt args =
     retryOnBadConn (\<lambda>c a. doExecWithStructList drv c stmt a) cn args"

section \<open>Conditional refinement (domain.go)\<close>

subsection \<open>\<^verbatim>\<open>strings.Replace(s, old, new, -1)\<close>\<close>

text \<open>Width of the first UTF-8 sequence of a string, as \<^verbatim>\<open>utf8.DecodeRuneInString\<close>
  reports it (an invalid or truncated sequence has width 1).  It is needed only for the
  case of an empty \<open>old\<close>, where the replacement is inserted around every rune.\<close>

definition runeWidth :: "string \<Rightarrow> nat" where
  "runeWidth s =
     (case s of
        [] \<Rightarrow> 0
      | c0 # _ \<Rightarrow>
          let b0 = (of_char c0 :: nat);
              sz = (if 194 \<le> b0 \<and> b0 \<le> 223 then 2
                    else if 224 \<le> b0 \<and> b0 \<le> 239 then 3
                    else if 240 \<le> b0 \<and> b0 \<le> 244 then 4 else (1::nat));
              lo = (if b0 = 224 then 160 else if b0 = 240 then 144 else (128::nat));
              hi = (if b0 = 237 then 159 else if b0 = 244 then 143 else (191::nat));
              byte = (\<lambda>i. (of_char (s ! i) :: nat))
          in if sz = 1 then 1
             else if length s < sz then 1
             else if byte 1 < lo \<or> hi < byte 1 then 1
             else if sz \<le> 2 then 2
             else if byte 2 < 128 \<or> 191 < byte 2 then 1
             else if sz \<le> 3 then 3
             else if byte 3 < 128 \<or> 191 < byte 3 then 1
             else 4)"

fun insertAfterRunes :: "string \<Rightarrow> nat \<Rightarrow> string \<Rightarrow> string" where
  "insertAfterRunes new w [] = []"
| "insertAfterRunes new w (c # cs) =
     (if w \<le> 1
      then c # new @ insertAfterRunes new (runeWidth cs) cs
      else c # insertAfterRunes new (w - 1) cs)"

fun replaceFrom :: "string \<Rightarrow> string \<Rightarrow> string \<Rightarrow> string" where
  "replaceFrom old new [] = []"
| "replaceFrom old new (c # cs) =
     (if old \<noteq> [] \<and> take (length old) (c # cs) = old
      then new @ replaceFrom old new (drop (length old - 1) cs)
      else c # replaceFrom old new cs)"

definition strings_Replace :: "string \<Rightarrow> string \<Rightarrow> string \<Rightarrow> string" where
  "strings_Replace s old new =
     (if old = new then s
      else if old = [] then new @ insertAfterRunes new (runeWidth s) s
      else replaceFrom old new s)"

subsection \<open>The loop of \<^verbatim>\<open>RefineStatement\<close>\<close>

text \<open>\<open>params\<close> is the presence map; \<open>None\<close> is the nil map.\<close>

fun refineQuery :: "(string \<rightharpoonup> val) option \<Rightarrow> IfClause list \<Rightarrow> string \<Rightarrow> string" where
  "refineQuery params [] q = q"
| "refineQuery params (v # cs) q =
     (case params of
        None \<Rightarrow> refineQuery params cs (strings_Replace q (clause_id v) [])
      | Some m \<Rightarrow>
          (let ok = (m (key v) \<noteq> None) in
           if exist v then
             (if ok then refineQuery params cs (strings_Replace q (clause_id v) (query v))
              else refineQuery params cs (strings_Replace q (clause_id v) []))
           else
             (if \<not> ok then refineQuery params cs (strings_Replace q (clause_id v) (query v))
              else refineQuery params cs (strings_Replace q (clause_id v) []))))"

subsection \<open>Statements in a store\<close>

text \<open>A Go slice refers to a backing array, and a copy of a \<^verbatim>\<open>QueryStatement\<close> shares
  the arrays of its \<^verbatim>\<open>clause\<close> and \<^verbatim>\<open>columnMention\<close> with the original.  The store
  holds the arrays; a slice field is \<open>None\<close> (nil) or the address of its array;
  \<open>nextAddr\<close> is the first address not yet allocated.\<close>

record store =
  clauseArrays :: "nat \<Rightarrow> IfClause list"
  columnArrays :: "nat \<Rightarrow> ColumnBind list"
  nextAddr :: nat

type_synonym stored_statement = "(nat option, nat option) QueryStatement"

definition clauseItems :: "store \<Rightarrow> nat option \<Rightarrow> IfClause list" where
  "clauseItems st s = (case s of None \<Rightarrow> [] | Some a \<Rightarrow> clauseArrays st a)"

definition columnItems :: "store \<Rightarrow> nat option \<Rightarrow> ColumnBind list" where
  "columnItems st s = (case s of None \<Rightarrow> [] | Some a \<Rightarrow> columnArrays st a)"

text \<open>What the statement reads as in a given store.\<close>

definition load :: "store \<Rightarrow> stored_statement \<Rightarrow> statement" where
  "load st stmt =
     \<lparr>eleType = eleType stmt, stmtId = stmtId stmt, Query = Query stmt,
      clause = clauseItems st (clause stmt),
      columnMention = columnItems st (columnMention stmt),
      HoldedQuery = HoldedQuery stmt\<rparr>"

text \<open>\<^verbatim>\<open>clone\<close> in the store: two fresh arrays, filled element by element.\<close>

definition cloneStored :: "store \<Rightarrow> stored_statement \<Rightarrow> stored_statement \<times> store" where
  "cloneStored st stmt =
     (let a = nextAddr st; b = Suc a in
      (\<lparr>eleType = eleType stmt, stmtId = stmtId stmt, Query = Query stmt,
        clause = Some a, columnMention = Some b, HoldedQuery = HoldedQuery stmt\<rparr>,
       st\<lparr>clauseArrays := (clauseArrays st)
             (a := foldl (\<lambda>c v. c @ [v]) [] (clauseItems st (clause stmt))),
          columnArrays := (columnArrays st)
             (b := foldl (\<lambda>c v. c @ [v]) [] (columnItems st (columnMention stmt))),
          nextAddr := Suc b\<rparr>))"

text \<open>\<^verbatim>\<open>queryNormalizer.normalize(&refined)\<close>.  The normalizer is a collaborator: a
  function \<open>norm\<close> from what the statement reads as to an error and what it reads as
  afterwards.  It works through the pointer it is given, so its writes land in the
  fields of that statement and in the arrays that statement refers to (a nil slice that
  becomes non-empty gets a fresh array).\<close>

definition writeBack ::
  "store \<Rightarrow> stored_statement \<Rightarrow> statement \<Rightarrow> stored_statement \<times> store" where
  "writeBack st stmt out =
     (let (cref, st1) =
            (case clause stmt of
               Some a \<Rightarrow> (Some a, st\<lparr>clauseArrays := (clauseArrays st)(a := clause out)\<rparr>)
             | None \<Rightarrow>
                 if clause out = [] then (None, st)
                 else (Some (nextAddr st),
                       st\<lparr>clauseArrays := (clauseArrays st)(nextAddr st := clause out),
                          nextAddr := Suc (nextAddr st)\<rparr>));
          (mref, st2) =
            (case columnMention stmt of
               Some b \<Rightarrow> (Some b, st1\<lparr>columnArrays := (columnArrays st1)(b := columnMention out)\<rparr>)
             | None \<Rightarrow>
                 if columnMention out = [] then (None, st1)
                 else (Some (nextAddr st1),
                       st1\<lparr>columnArrays := (columnArrays st1)(nextAddr st1 := columnMention out),
                           nextAddr := Suc (nextAddr st1)\<rparr>))
      in (\<lparr>eleType = eleType out, stmtId = stmtId out, Query = Query out,
           clause = cref, columnMention = mref, HoldedQuery = HoldedQuery out\<rparr>, st2))"

definition normalizeStored ::
  "(statement \<Rightarrow> error option \<times> statement) \<Rightarrow> store \<Rightarrow> stored_statement
     \<Rightarrow> error option \<times> stored_statement \<times> store" where
  "normalizeStored norm st stmt =
     (case norm (load st stmt) of (err, out) \<Rightarrow> (err, writeBack st stmt out))"

text \<open>\<^verbatim>\<open>RefineStatement\<close>: clone, one substitution per clause of the receiver into the
  clone's text, then the normalizer on the clone.  Returns \<open>(refined, err)\<close> and the
  store.\<close>

definition RefineStatement ::
  "(statement \<Rightarrow> error option \<times> statement) \<Rightarrow> store \<Rightarrow> stored_statement
     \<Rightarrow> (string \<rightharpoonup> val) option \<Rightarrow> (stored_statement \<times> error option) \<times> store" where
  "RefineStatement norm st stmt params =
     (case cloneStored st stmt of
        (refined, st1) \<Rightarrow>
          (case normalizeStored norm st1
                  (refined\<lparr>Query := refineQuery params (clauseItems st1 (clause stmt)) (Query refined)\<rparr>) of
             (err, refined', st2) \<Rightarrow> ((refined', err), st2)))"



section \<open>Result cursors (result.go)\<close>

text \<open>A \<^verbatim>\<open>*sql.Rows\<close>: the error \<^verbatim>\<open>Err()\<close> reports, and what the next fetches will
  meet (a row or a failure; the end of the list is the end of the result set).\<close>

datatype fetch = Row | Fault error

record cursor =
  lasterr :: "error option"
  stream :: "fetch list"

definition rowsErr :: "cursor \<Rightarrow> error option" where
  "rowsErr c = lasterr c"

definition rowsNext :: "cursor \<Rightarrow> bool \<times> cursor" where
  "rowsNext c =
     (if lasterr c \<noteq> None then (False, c)
      else (case stream c of
              [] \<Rightarrow> (False, c)
            | Row # rest \<Rightarrow> (True, c\<lparr>stream := rest\<rparr>)
            | Fault e # rest \<Rightarrow> (False, c\<lparr>lasterr := Some e, stream := []\<rparr>)))"

text \<open>A call either returns or panics.  What the driver-side scanning steps do is fixed
  by a \<open>scanner\<close>: the error of \<^verbatim>\<open>rows.Columns()\<close>, the outcome of building the structure
  scanner and scanning into it, and the outcome of \<^verbatim>\<open>rows.Scan(v...)\<close>.\<close>

datatype 'a outcome = Returns 'a | Panics panic

record scanner =
  columnsErr :: "error option"
  structScan :: "error option outcome"
  directScan :: "error option outcome"

text \<open>The part both \<^verbatim>\<open>Scan\<close> methods share: the classification of the destination
  \<^verbatim>\<open>v[0]\<close>.  \<open>toStruct\<close> is the method's own \<^verbatim>\<open>scanToStruct\<close>.\<close>

definition scanDest :: "scanner \<Rightarrow> error option outcome \<Rightarrow> val list \<Rightarrow> error option outcome" where
  "scanDest sc toStruct v =
     (case v of
        [] \<Rightarrow> Panics IndexOutOfRange
      | v0 # _ \<Rightarrow>
          (case kindOf v0 of
             None \<Rightarrow> Panics NilDereference
           | Some k \<Rightarrow>
               if k \<noteq> Ptr then Returns (Some ErrQueryNeedsPtrParameter)
               else (case v0 of
                       VPtr None \<Rightarrow> Returns (Some ErrNilPtr)
                     | VPtrIface _ \<Rightarrow> Returns (Some ErrInterfaceIsNotSupported)
                     | VPtr (Some VNil) \<Rightarrow> Returns (Some ErrInterfaceIsNotSupported)
                     | VPtr (Some (VPtr _)) \<Rightarrow> Returns (Some ErrPtrIsNotSupported)
                     | VPtr (Some (VPtrIface _)) \<Rightarrow> Returns (Some ErrPtrIsNotSupported)
                     | VPtr (Some (VStruct valuer _)) \<Rightarrow>
                         if \<not> valuer then toStruct else directScan sc
                     | _ \<Rightarrow> directScan sc)))"

subsection \<open>\<^verbatim>\<open>QueryResult\<close>\<close>

record QueryResult =
  qr_pstmt :: "nat option"
  qr_err :: "error option"
  qr_rows :: "cursor option"

definition newQueryResultError :: "error option \<Rightarrow> QueryResult" where
  "newQueryResultError e = \<lparr>qr_pstmt = None, qr_err = e, qr_rows = None\<rparr>"

definition newQueryResult :: "nat option \<Rightarrow> cursor option \<Rightarrow> QueryResult" where
  "newQueryResult stmt rows = \<lparr>qr_pstmt = stmt, qr_err = None, qr_rows = rows\<rparr>"

definition GetError :: "QueryResult \<Rightarrow> error option" where
  "GetError r = qr_err r"

definition QueryResult_scanToStruct :: "scanner \<Rightarrow> cursor \<Rightarrow> error option outcome" where
  "QueryResult_scanToStruct sc c =
     (case rowsErr c of
        Some e \<Rightarrow> Returns (Some e)
      | None \<Rightarrow> (case columnsErr sc of Some e \<Rightarrow> Returns (Some e) | None \<Rightarrow> structScan sc))"

text \<open>\<^verbatim>\<open>QueryResult.Scan\<close>.  The named result \<^verbatim>\<open>err\<close> is nil until assigned; the first
  guard returns it.  The \<^verbatim>\<open>recover\<close> is deferred only after the two guards, so a nil
  \<^verbatim>\<open>rows\<close> panics out of the call.\<close>

definition QueryResult_Scan :: "scanner \<Rightarrow> QueryResult \<Rightarrow> val list \<Rightarrow> error option outcome" where
  "QueryResult_Scan sc r v =
     (let err = None in
      if qr_err r \<noteq> None then Returns err
      else (case qr_rows r of
              None \<Rightarrow> Panics NilDereference
            | Some c \<Rightarrow>
                (case rowsErr c of
                   Some e \<Rightarrow> Returns (Some e)
                 | None \<Rightarrow>
                     (case scanDest sc (QueryResult_scanToStruct sc c) v of
                        Returns e \<Rightarrow> Returns e
                      | Panics p \<Rightarrow> Returns (Some (ErrFailToScan p))))))"

subsection \<open>\<^verbatim>\<open>QueryRowResult\<close>\<close>

record QueryRowResult =
  transaction :: bool
  qrr_pstmt :: "nat option"
  qrr_err :: "error option"
  qrr_rows :: "cursor option"

definition newQueryRowResultError :: "error option \<Rightarrow> QueryRowResult" where
  "newQueryRowResultError e =
     \<lparr>transaction = False, qrr_pstmt = None, qrr_err = e, qrr_rows = None\<rparr>"

definition newQueryRowResult :: "nat option \<Rightarrow> cursor option \<Rightarrow> QueryRowResult" where
  "newQueryRowResult stmt rows =
     \<lparr>transaction = False, qrr_pstmt = stmt, qrr_err = None, qrr_rows = rows\<rparr>"

definition SetTransaction :: "QueryRowResult \<Rightarrow> QueryRowResult" where
  "SetTransaction r = r\<lparr>transaction := True\<rparr>"

definition QueryRowResult_scanToStruct :: "scanner \<Rightarrow> error option outcome" where
  "QueryRowResult_scanToStruct sc =
     (case columnsErr sc of Some e \<Rightarrow> Returns (Some e) | None \<Rightarrow> structScan sc)"

text \<open>The body of \<^verbatim>\<open>QueryRowResult.Scan\<close>, below the two deferred functions.\<close>

definition QueryRowResult_Scan_body ::
  "scanner \<Rightarrow> QueryRowResult \<Rightarrow> val list \<Rightarrow> error option outcome \<times> QueryRowResult" where
  "QueryRowResult_Scan_body sc r v =
     (case qrr_err r of
        Some e \<Rightarrow> (Returns (Some e), r)
      | None \<Rightarrow>
          (case qrr_rows r of
             None \<Rightarrow> (Panics NilDereference, r)
           | Some c \<Rightarrow>
               (case rowsErr c of
                  Some e \<Rightarrow> (Returns (Some e), r)
                | None \<Rightarrow>
                    (case rowsNext c of
                       (has, c') \<Rightarrow>
                         (if \<not> has then
                            (case rowsErr c' of
                               Some e \<Rightarrow> Returns (Some e)
                             | None \<Rightarrow> Returns (Some ErrNoRows))
                          else scanDest sc (QueryRowResult_scanToStruct sc) v,
                          r\<lparr>qrr_rows := Some c'\<rparr>)))))"

text \<open>The calls \<^verbatim>\<open>Scan\<close> makes on the resources it holds, in the order it makes them.\<close>

datatype release = CloseRows | CloseStmt nat

text \<open>The deferred function registered second (it runs first): close and forget the
  cursor; outside a transaction close and forget the prepared statement.\<close>

definition releaseAll :: "QueryRowResult \<Rightarrow> QueryRowResult \<times> release list" where
  "releaseAll r =
     (let (r1, rel1) =
            (case qrr_rows r of
               Some _ \<Rightarrow> (r\<lparr>qrr_rows := None\<rparr>, [CloseRows])
             | None \<Rightarrow> (r, []));
          (r2, rel2) =
            (case qrr_pstmt r1 of
               Some h \<Rightarrow> if \<not> transaction r1 then (r1\<lparr>qrr_pstmt := None\<rparr>, [CloseStmt h]) else (r1, [])
             | None \<Rightarrow> (r1, []))
      in (r2, rel1 @ rel2))"

text \<open>\<^verbatim>\<open>QueryRowResult.Scan\<close>: the body, then the release, then the \<^verbatim>\<open>recover\<close> that
  turns a panic of the body into an error.\<close>

definition QueryRowResult_Scan ::
  "scanner \<Rightarrow> QueryRowResult \<Rightarrow> val list \<Rightarrow> error option \<times> QueryRowResult \<times> release list" where
  "QueryRowResult_Scan sc r v =
     (case QueryRowResult_Scan_body sc r v of
        (out, r1) \<Rightarrow>
          (case out of Returns e \<Rightarrow> e | Panics p \<Rightarrow> Some (ErrFailToScan p), releaseAll r1))"

section \<open>Closed forms used in the proofs\<close>

text \<open>What one successful execution adds to the batch result.\<close>

definition accRow :: "statement \<Rightarrow> ExecMultiResult \<Rightarrow> sql_result \<Rightarrow> ExecMultiResult" where
  "accRow stmt result res =
     (let result' = result\<lparr>rowAffected := rowAffected result + rowsAffected res\<rparr> in
      if eleType stmt = eleTypeInsert
      then (case lastInsertId res of Inl _ \<Rightarrow> result' | Inr i \<Rightarrow> addInsertId result' i)
      else result')"

definition idOk :: "statement \<Rightarrow> sql_result \<Rightarrow> bool" where
  "idOk stmt res = (eleType stmt = eleTypeInsert \<longrightarrow> (\<exists>x. lastInsertId res = Inr x))"

text \<open>The statement whose text went through the loop of \<^verbatim>\<open>RefineStatement\<close>.\<close>

definition refinedText :: "statement \<Rightarrow> (string \<rightharpoonup> val) option \<Rightarrow> statement" where
  "refinedText s params = s\<lparr>Query := refineQuery params (clause s) (Query s)\<rparr>"

section \<open>Example data\<close>

definition ex_select_in :: "char \<Rightarrow> statement" where
  "ex_select_in hb =
     \<lparr>eleType = eleTypeSelect, stmtId = ''findIn'', Query = ''IN (?)'', clause = [],
      columnMention = [NewColumnBindArray ''ids'' 5],
      HoldedQuery = ''IN ('' @ [hb] @ '')''\<rparr>"

definition ex_select_two_in :: "char \<Rightarrow> statement" where
  "ex_select_two_in hb =
     \<lparr>eleType = eleTypeSelect, stmtId = ''findTwo'', Query = ''a IN (?) AND b IN (?)'', clause = [],
      columnMention = [NewColumnBindArray ''a'' 7, NewColumnBindArray ''b'' 20],
      HoldedQuery = ''a IN ('' @ [hb] @ '') AND b IN ('' @ [hb] @ '')''\<rparr>"

definition ex_update_in :: "char \<Rightarrow> statement" where
  "ex_update_in hb =
     \<lparr>eleType = eleTypeUpdate, stmtId = ''setX'', Query = ''UPDATE t SET x = ? WHERE id IN (?)'',
      clause = [],
      columnMention = [NewColumnBind ''x'' 18, NewColumnBindArray ''ids'' 33],
      HoldedQuery = ''UPDATE t SET x = '' @ [hb] @ '' WHERE id IN ('' @ [hb] @ '')''\<rparr>"

definition ex_update_plain :: statement where
  "ex_update_plain =
     \<lparr>eleType = eleTypeUpdate, stmtId = ''setY'', Query = ''UPDATE t SET x = ? WHERE id = ?'',
      clause = [],
      columnMention = [NewColumnBind ''x'' 18, NewColumnBind ''id'' 31],
      HoldedQuery = []\<rparr>"

definition ex_insert :: statement where
  "ex_insert =
     \<lparr>eleType = eleTypeInsert, stmtId = ''addUser'',
      Query = ''INSERT INTO users(age) VALUES (?)'', clause = [],
      columnMention = [NewColumnBind ''Age'' 32], HoldedQuery = []\<rparr>"

definition ex_rows :: "val list list" where
  "ex_rows = [[VScalar 10], [VScalar 11], [VScalar 12]]"

text \<open>The same three rows as a batch of maps and as a batch of structs (the last one
  behind a pointer).\<close>

definition ex_map_batch :: "val list" where
  "ex_map_batch =
     [VMapSI (Some [(''Age'', VScalar 10)]), VMapSI (Some [(''Age'', VScalar 11)]),
      VMapSI (Some [(''Age'', VScalar 12)])]"

definition ex_struct_batch :: "val list" where
  "ex_struct_batch =
     [VStruct False [(''Age'', True, VScalar 10)], VStruct False [(''Age'', True, VScalar 11)],
      VPtr (Some (VStruct False [(''Age'', True, VScalar 12)]))]"

definition ex_gen :: "nat \<Rightarrow> 64 word" where
  "ex_gen i = 100 + of_nat i"

definition ex_answer :: "nat \<Rightarrow> sql_result" where
  "ex_answer i = \<lparr>rowsAffected = 1, lastInsertId = Inr (100 + of_nat i)\<rparr>"

definition ex_conn :: conn where
  "ex_conn = \<lparr>prepare_calls = 0, close_calls = 0, exec_log = []\<rparr>"

text \<open>A store that answers every call, and one that loses the connection at its second
  \<^verbatim>\<open>Exec\<close> and answers the calls after it as the first one would have.\<close>

definition ex_driver :: driver where
  "ex_driver = \<lparr>prepare_res = (\<lambda>_ _. None), exec_res = (\<lambda>n _ _. Inr (ex_answer n))\<rparr>"

definition ex_faulty_driver :: driver where
  "ex_faulty_driver =
     \<lparr>prepare_res = (\<lambda>_ _. None),
      exec_res = (\<lambda>n _ _. if n = 1 then Inl ErrBadConn
                           else Inr (ex_answer (if n < 1 then n else n - 1)))\<rparr>"

text \<open>A statement with two conditional clauses, one of each policy; the tokens are the
  sequence number between two NUL bytes, as \<^verbatim>\<open>newIfClause\<close> builds them.\<close>

definition ex_token :: "char \<Rightarrow> string" where
  "ex_token d = [CHR 0x00, d, CHR 0x00]"

definition ex_clauses :: "IfClause list" where
  "ex_clauses =
     [\<lparr>clause_id = ex_token CHR ''0'', key = ''age'', query = ''AND age > :age'', exist = True\<rparr>,
      \<lparr>clause_id = ex_token CHR ''1'', key = ''name'', query = ''AND name IS NULL'', exist = False\<rparr>]"

definition ex_store :: store where
  "ex_store = \<lparr>clauseArrays = (\<lambda>_. [])(0 := ex_clauses), columnArrays = (\<lambda>_. []), nextAddr = 1\<rparr>"

definition ex_conditional :: stored_statement where
  "ex_conditional =
     \<lparr>eleType = eleTypeSelect, stmtId = ''findUsers'',
      Query = ''SELECT id FROM users WHERE 1=1 '' @ ex_token CHR ''0'' @ ex_token CHR ''1'',
      clause = Some 0, columnMention = None, HoldedQuery = []\<rparr>"

text \<open>A stand-in normalizer: it copies the text into the held text and records one
  column.\<close>

definition ex_norm :: "statement \<Rightarrow> error option \<times> statement" where
  "ex_norm s = (None, s\<lparr>columnMention := [NewColumnBind ''age'' 1], HoldedQuery := Query s\<rparr>)"

definition ex_scanner :: scanner where
  "ex_scanner = \<lparr>columnsErr = None, structScan = Returns None, directScan = Returns None\<rparr>"

definition ex_empty_fetch :: QueryRowResult where
  "ex_empty_fetch = newQueryRowResult (Some 7) (Some \<lparr>lasterr = None, stream = []\<rparr>)"

section \<open>Array expansion and binding: properties\<close>

lemmas bind_eval =
  resolveColumnBindInList_def resolveColumnBindInMap_def hasArrayBind_def
  NewColumnBindArray_def NewColumnBind_def clone_def columnBindTypeArray_def
  columnBindTypeNormal_def reformHoldQuery_def reformArrayHold_def index_or_nil_def

lemma foldl_snoc_id: "foldl (\<lambda>c v. c @ [v]) acc xs = acc @ xs"
  by (induction xs arbitrary: acc) simp_all

lemma clone_id: "clone stmt = stmt"
  by (simp add: clone_def foldl_snoc_id)

text \<open>The two counts of \<^verbatim>\<open>flattenArray\<close> side by side.\<close>

lemma flattenArray_typed_slice_count: "flattenArray (VTSlice xs) = Inr (xs, length xs)"
  by simp

lemma flattenArray_interface_slice_count: "flattenArray (VISlice xs) = Inr (xs, length xs - 1)"
  by simp

text \<open>A slice of any type other than \<^verbatim>\<open>[]interface{}\<close> is counted by its length: three
  items give three placeholders and three arguments.\<close>

lemma resolveColumnBindInList_typed_slice:
  "resolveColumnBindInList hb rh (ex_select_in hb) [VTSlice [VScalar 1, VScalar 2, VScalar 3]]
     = Inr (rh (''IN ('' @ [hb, CHR '','', hb, CHR '','', hb] @ '')''),
            [VScalar 1, VScalar 2, VScalar 3])"
  by (simp add: ex_select_in_def bind_eval numeral_3_eq_3)

text \<open>
  \<^bold>\<open>C1\<close> asks that a list of \<open>cnt\<close> items bound to the only array column yields \<open>cnt\<close>
  placeholders at the column's position and \<open>cnt\<close> more arguments.  For a
  \<^verbatim>\<open>[]interface{}\<close> the code counts the index of the last item instead of the number of
  items: three items bound to the array column of \<open>ex_select_in\<close> give three arguments
  but only two placeholders in the text handed to \<^verbatim>\<open>resolveHolding\<close>.
\<close>

theorem resolveColumnBindInList_interface_slice_undercounts:
  "resolveColumnBindInList hb rh (ex_select_in hb) [VISlice [VScalar 1, VScalar 2, VScalar 3]]
     = Inr (rh (''IN ('' @ [hb, CHR '','', hb] @ '')''), [VScalar 1, VScalar 2, VScalar 3])"
  by (simp add: ex_select_in_def bind_eval numeral_2_eq_2)

text \<open>Two array columns that each receive a typed slice of two items: the second one is
  refused.\<close>

lemma resolveColumnBindInList_two_typed_slices:
  "resolveColumnBindInList hb rh (ex_select_two_in hb)
       [VTSlice [VScalar 1, VScalar 2], VTSlice [VScalar 3, VScalar 4]]
     = Inl (Failed ErrOnlyOneArrayBinding)"
  by (simp add: ex_select_two_in_def bind_eval numeral_2_eq_2)

text \<open>
  \<^bold>\<open>C7\<close> asks that two array columns which each receive more than one item fail with
  "this version only support 1 IN array binding", for positional and for named binding.
  The same count as in C1 makes a \<^verbatim>\<open>[]interface{}\<close> of two items count as one: with two
  such values both bindings succeed, the query text is left as it was (two placeholders)
  and four arguments are passed.
\<close>

theorem two_interface_slices_bind_without_error:
  "resolveColumnBindInList hb rh (ex_select_two_in hb)
       [VISlice [VScalar 1, VScalar 2], VISlice [VScalar 3, VScalar 4]]
     = Inr (''a IN (?) AND b IN (?)'', [VScalar 1, VScalar 2, VScalar 3, VScalar 4])
   \<and> resolveColumnBindInMap hb rh (ex_select_two_in hb)
       [''a'' \<mapsto> VISlice [VScalar 1, VScalar 2], ''b'' \<mapsto> VISlice [VScalar 3, VScalar 4]]
     = Inr (''a IN (?) AND b IN (?)'', [VScalar 1, VScalar 2, VScalar 3, VScalar 4])"
  by (simp add: ex_select_two_in_def bind_eval)

subsection \<open>Named lookup\<close>

lemma lookupColumns_missing:
  "v \<in> set cols \<Longrightarrow> m (name v) = None \<Longrightarrow> \<exists>w. lookupColumns cols m param = Inl (ErrNotFoundParam w)"
proof (induction cols arbitrary: param)
  case Nil
  then show ?case by simp
next
  case (Cons c cols)
  show ?case
  proof (cases "m (name c)")
    case None
    then show ?thesis by simp
  next
    case (Some found)
    with Cons.prems have "v \<in> set cols" by auto
    from Cons.IH [of "param @ [found]"] this Cons.prems(2) Some show ?thesis by simp
  qed
qed

text \<open>Without an array binding a missing name stops the call before the store is
  reached.\<close>

lemma execWithMap_missing_name_without_array:
  assumes "\<not> hasArrayBind stmt" "v \<in> set (columnMention stmt)" "m (name v) = None"
  shows "\<exists>w. execWithMap drv cn hb rh stmt m = (Inl (Failed (ErrNotFoundParam w)), cn)"
proof -
  from lookupColumns_missing [of v "columnMention stmt" m "[]"] assms(2,3) obtain w where
    "lookupColumns (columnMention stmt) m [] = Inl (ErrNotFoundParam w)" by blast
  then show ?thesis
    using assms(1) by (simp add: execWithMap_def resolveColumnBindInMap_def)
qed

text \<open>
  \<^bold>\<open>C2\<close> asks that a declared column name missing from the mapping fails the binding with
  "not found ... from parameter values" and that nothing is executed, with or without
  array bindings.  With an array binding the code reads the map without the presence
  check: for \<open>ex_update_in\<close> and a map that lacks \<open>x\<close>, the binding succeeds with the nil
  interface in the place of \<open>x\<close>, and the statement is executed with it.
\<close>

theorem execWithMap_array_statement_binds_nil_for_missing_name:
  "execWithMap drv ex_conn hb rh (ex_update_in hb) [''ids'' \<mapsto> VTSlice [VScalar 1]]
     = (case exec_res drv 0 ''UPDATE t SET x = ? WHERE id IN (?)'' [VNil, VScalar 1] of
          Inl e \<Rightarrow> Inl (Failed e)
        | Inr r \<Rightarrow> Inr r,
        \<lparr>prepare_calls = 0, close_calls = 0,
         exec_log = [(''UPDATE t SET x = ? WHERE id IN (?)'', [VNil, VScalar 1])]\<rparr>)"
  by (simp add: ex_update_in_def ex_conn_def bind_eval execWithMap_def proxy_exec_def)

section \<open>The batch executor: properties\<close>

text \<open>For nested lists and for lists of maps, a batch that the validate loop refuses does
  not touch the connection.\<close>

lemma doExecWithNestedList_refused:
  "validateList stmt 0 args = Some f \<Longrightarrow> snd (doExecWithNestedList drv cn stmt args) = cn"
  by (cases f) (simp_all add: doExecWithNestedList_def)

lemma doExecWithNestedMap_refused:
  "validateMap stmt 0 args = Some f \<Longrightarrow> snd (doExecWithNestedMap drv cn stmt args) = cn"
  by (cases f) (simp_all add: doExecWithNestedMap_def)

text \<open>
  \<^bold>\<open>C3\<close> asks that a batch with a shape violation, or with an element that supplies fewer
  values than there are column bindings, aborts before any statement is prepared, with
  no row executed.  \<^verbatim>\<open>doExecWithStructList\<close> has no validate loop: for a batch of two
  structs of which the second has no field at all, the statement is prepared, the first
  row is executed, and the error comes at index 1.
\<close>

theorem doExecWithStructList_fails_after_first_row:
  "doExecWithStructList ex_driver ex_conn ex_insert
       [VStruct False [(''Age'', True, VScalar 1)], VStruct False []]
     = (Inr (1, \<lparr>idList = Some [100], rowAffected = 1\<rparr>,
             Some (ErrStructNotFoundParam (NewColumnBind ''Age'' 32))),
        \<lparr>prepare_calls = 1, close_calls = 1,
         exec_log = [(''INSERT INTO users(age) VALUES (?)'', [VScalar 1])]\<rparr>)"
  by (simp add: doExecWithStructList_def prepareAndIterate_def rowOfStruct_def execRow_def
      ex_driver_def ex_conn_def ex_insert_def ex_answer_def emptyResult_def addInsertId_def
      sliceItems_def eleTypeInsert_def NewColumnBind_def)

subsection \<open>Retry after a lost connection\<close>

lemma execRow_ok:
  assumes "exec_res drv (length (exec_log cn)) (Query stmt) param = Inr res" "idOk stmt res"
  shows "execRow drv stmt param result cn =
         ((None, accRow stmt result res), cn\<lparr>exec_log := exec_log cn @ [(Query stmt, param)]\<rparr>)"
  using assms by (auto simp: execRow_def accRow_def idOk_def Let_def)

lemma execRow_fail:
  assumes "exec_res drv (length (exec_log cn)) (Query stmt) param = Inl e"
  shows "execRow drv stmt param result cn =
         ((Some e, result), cn\<lparr>exec_log := exec_log cn @ [(Query stmt, param)]\<rparr>)"
  using assms by (simp add: execRow_def Let_def)

lemma upt_from: "[i..<Suc (i + n)] = i # [Suc i..<Suc (i + n)]"
  by (simp add: upt_rec)

text \<open>The iterate phase when every row resolves and the store answers every execution:
  the result accumulated, and the executions logged in row order.\<close>

lemma iterateRows_ok:
  assumes "length rows = length args"
    and "\<forall>j<length args. row (args ! j) = Inr (rows ! j)
             \<and> exec_res drv (length (exec_log cn) + j) (Query stmt) (rows ! j) = Inr (rs (i + j))
             \<and> idOk stmt (rs (i + j))"
  shows "iterateRows row drv stmt i args result cn
           = (Inr (None, foldl (accRow stmt) result (map rs [i..<i + length args])),
              cn\<lparr>exec_log := exec_log cn @ map (Pair (Query stmt)) rows\<rparr>)"
  using assms
proof (induction args arbitrary: rows i result cn)
  case Nil
  then show ?case by simp
next
  case (Cons v args)
  from Cons.prems(1) obtain p rows' where rows: "rows = p # rows'" "length rows' = length args"
    by (cases rows) auto
  from Cons.prems(2) [rule_format, of 0] rows have
    p: "row v = Inr p" "exec_res drv (length (exec_log cn)) (Query stmt) p = Inr (rs i)" "idOk stmt (rs i)"
    by auto
  let ?cn = "cn\<lparr>exec_log := exec_log cn @ [(Query stmt, p)]\<rparr>"
  have step: "\<forall>j<length args. row (args ! j) = Inr (rows' ! j)
             \<and> exec_res drv (length (exec_log ?cn) + j) (Query stmt) (rows' ! j) = Inr (rs (Suc i + j))
             \<and> idOk stmt (rs (Suc i + j))"
  proof (intro allI impI)
    fix j assume "j < length args"
    then have "Suc j < length (v # args)" by simp
    from Cons.prems(2) [rule_format, OF this] rows
    show "row (args ! j) = Inr (rows' ! j)
             \<and> exec_res drv (length (exec_log ?cn) + j) (Query stmt) (rows' ! j) = Inr (rs (Suc i + j))
             \<and> idOk stmt (rs (Suc i + j))" by simp
  qed
  have ih: "iterateRows row drv stmt (Suc i) args (accRow stmt result (rs i)) ?cn
          = (Inr (None, foldl (accRow stmt) (accRow stmt result (rs i))
                          (map rs [Suc i..<Suc i + length args])),
             ?cn\<lparr>exec_log := exec_log ?cn @ map (Pair (Query stmt)) rows'\<rparr>)"
    by (rule Cons.IH [OF rows(2) step])
  show ?case
    using ih p rows by (simp add: execRow_ok upt_from del: upt_Suc)
qed

text \<open>The iterate phase when the execution of row \<open>k\<close> fails: the early return at \<open>k\<close>
  with the result of the rows before it; the failed execution is in the log.\<close>

lemma iterateRows_fault:
  assumes "k < length args" "length rows = length args"
    and "\<forall>j<k. row (args ! j) = Inr (rows ! j)
             \<and> exec_res drv (length (exec_log cn) + j) (Query stmt) (rows ! j) = Inr (rs (i + j))
             \<and> idOk stmt (rs (i + j))"
    and "row (args ! k) = Inr (rows ! k)
             \<and> exec_res drv (length (exec_log cn) + k) (Query stmt) (rows ! k) = Inl e"
  shows "iterateRows row drv stmt i args result cn
           = (Inr (Some (i + k, e), foldl (accRow stmt) result (map rs [i..<i + k])),
              cn\<lparr>exec_log := exec_log cn @ map (Pair (Query stmt)) (take (Suc k) rows)\<rparr>)"
  using assms
proof (induction args arbitrary: rows i k result cn)
  case Nil
  then show ?case by simp
next
  case (Cons v args)
  from Cons.prems(2) obtain p rows' where rows: "rows = p # rows'" "length rows' = length args"
    by (cases rows) auto
  show ?case
  proof (cases k)
    case 0
    with Cons.prems(4) rows have
      "row v = Inr p" "exec_res drv (length (exec_log cn)) (Query stmt) p = Inl e" by auto
    then show ?thesis using 0 rows by (simp add: execRow_fail)
  next
    case (Suc k')
    from Cons.prems(3) [rule_format, of 0] Suc rows have
      p: "row v = Inr p" "exec_res drv (length (exec_log cn)) (Query stmt) p = Inr (rs i)" "idOk stmt (rs i)"
      by auto
    let ?cn = "cn\<lparr>exec_log := exec_log cn @ [(Query stmt, p)]\<rparr>"
    have k': "k' < length args" using Cons.prems(1) Suc by simp
    have step: "\<forall>j<k'. row (args ! j) = Inr (rows' ! j)
             \<and> exec_res drv (length (exec_log ?cn) + j) (Query stmt) (rows' ! j) = Inr (rs (Suc i + j))
             \<and> idOk stmt (rs (Suc i + j))"
    proof (intro allI impI)
      fix j assume "j < k'"
      then have "Suc j < k" using Suc by simp
      from Cons.prems(3) [rule_format, OF this] rows
      show "row (args ! j) = Inr (rows' ! j)
             \<and> exec_res drv (length (exec_log ?cn) + j) (Query stmt) (rows' ! j) = Inr (rs (Suc i + j))
             \<and> idOk stmt (rs (Suc i + j))" by simp
    qed
    have last: "row (args ! k') = Inr (rows' ! k')
             \<and> exec_res drv (length (exec_log ?cn) + k') (Query stmt) (rows' ! k') = Inl e"
      using Cons.prems(4) Suc rows by simp
    have ih: "iterateRows row drv stmt (Suc i) args (accRow stmt result (rs i)) ?cn
          = (Inr (Some (Suc i + k', e), foldl (accRow stmt) (accRow stmt result (rs i))
                          (map rs [Suc i..<Suc i + k'])),
             ?cn\<lparr>exec_log := exec_log ?cn @ map (Pair (Query stmt)) (take (Suc k') rows')\<rparr>)"
      by (rule Cons.IH [OF k' rows(2) step last])
    show ?thesis
      using ih p rows Suc by (simp add: execRow_ok upt_from del: upt_Suc)
  qed
qed

lemma prepareAndIterate_ok:
  assumes "prepare_res drv (prepare_calls cn) (Query stmt) = None"
    and "length rows = length args"
    and "\<forall>j<length args. row (args ! j) = Inr (rows ! j)
             \<and> exec_res drv (length (exec_log cn) + j) (Query stmt) (rows ! j) = Inr (rs j)
             \<and> idOk stmt (rs j)"
  shows "prepareAndIterate row drv cn stmt args
           = (Inr (length args, foldl (accRow stmt) emptyResult (map rs [0..<length args]), None),
              \<lparr>prepare_calls = Suc (prepare_calls cn), close_calls = Suc (close_calls cn),
               exec_log = exec_log cn @ map (Pair (Query stmt)) rows\<rparr>)"
proof -
  let ?cn1 = "cn\<lparr>prepare_calls := Suc (prepare_calls cn)\<rparr>"
  have "\<forall>j<length args. row (args ! j) = Inr (rows ! j)
             \<and> exec_res drv (length (exec_log ?cn1) + j) (Query stmt) (rows ! j) = Inr (rs (0 + j))
             \<and> idOk stmt (rs (0 + j))"
    using assms(3) by simp
  from iterateRows_ok [OF assms(2) this, of emptyResult]
  show ?thesis
    using assms(1) by (simp add: prepareAndIterate_def)
qed

lemma prepareAndIterate_fault:
  assumes "prepare_res drv (prepare_calls cn) (Query stmt) = None"
    and "k < length args" "length rows = length args"
    and "\<forall>j<k. row (args ! j) = Inr (rows ! j)
             \<and> exec_res drv (length (exec_log cn) + j) (Query stmt) (rows ! j) = Inr (rs j)
             \<and> idOk stmt (rs j)"
    and "row (args ! k) = Inr (rows ! k)
             \<and> exec_res drv (length (exec_log cn) + k) (Query stmt) (rows ! k) = Inl e"
  shows "prepareAndIterate row drv cn stmt args
           = (Inr (k, foldl (accRow stmt) emptyResult (map rs [0..<k]), Some e),
              \<lparr>prepare_calls = Suc (prepare_calls cn), close_calls = Suc (close_calls cn),
               exec_log = exec_log cn @ map (Pair (Query stmt)) (take (Suc k) rows)\<rparr>)"
proof -
  let ?cn1 = "cn\<lparr>prepare_calls := Suc (prepare_calls cn)\<rparr>"
  have a: "\<forall>j<k. row (args ! j) = Inr (rows ! j)
             \<and> exec_res drv (length (exec_log ?cn1) + j) (Query stmt) (rows ! j) = Inr (rs (0 + j))
             \<and> idOk stmt (rs (0 + j))"
    using assms(4) by simp
  have b: "row (args ! k) = Inr (rows ! k)
             \<and> exec_res drv (length (exec_log ?cn1) + k) (Query stmt) (rows ! k) = Inl e"
    using assms(5) by simp
  from iterateRows_fault [OF assms(2,3) a b, of emptyResult]
  show ?thesis
    using assms(1) by (simp add: prepareAndIterate_def)
qed

text \<open>The closed form of the accumulated result over the rows \<open>ns\<close>, when the store
  generates the id \<open>gen i\<close> for row \<open>i\<close> of an insert statement.\<close>

lemma foldl_accRow:
  assumes "eleType stmt = eleTypeInsert \<longrightarrow> (\<forall>i\<in>set ns. lastInsertId (rs i) = Inr (gen i))"
  shows "foldl (accRow stmt) result (map rs ns) =
     \<lparr>idList = (if eleType stmt = eleTypeInsert \<and> ns \<noteq> []
                then Some (sliceItems (idList result) @ map gen ns)
                else idList result),
      rowAffected = rowAffected result + sum_list (map (\<lambda>i. rowsAffected (rs i)) ns)\<rparr>"
  using assms
proof (induction ns arbitrary: result)
  case Nil
  then show ?case by simp
next
  case (Cons n ns)
  then have rest: "eleType stmt = eleTypeInsert \<longrightarrow> (\<forall>i\<in>set ns. lastInsertId (rs i) = Inr (gen i))"
    by simp
  show ?case
  proof (cases "eleType stmt = eleTypeInsert")
    case True
    with Cons.prems have "lastInsertId (rs n) = Inr (gen n)" by simp
    then have a: "accRow stmt result (rs n) =
        \<lparr>idList = Some (sliceItems (idList result) @ [gen n]),
         rowAffected = rowAffected result + rowsAffected (rs n)\<rparr>"
      using True by (simp add: accRow_def addInsertId_def)
    show ?thesis
      using True by (simp add: Cons.IH [OF rest] a sliceItems_def add.assoc)
  next
    case False
    then have a: "accRow stmt result (rs n) =
        \<lparr>idList = idList result, rowAffected = rowAffected result + rowsAffected (rs n)\<rparr>"
      by (simp add: accRow_def)
    show ?thesis
      using False by (simp add: Cons.IH [OF rest] a add.assoc)
  qed
qed

lemma upt_split: "k \<le> n \<Longrightarrow> [0..<k] @ [k..<n] = [0..<n]"
  by (metis le_add_diff_inverse upt_add_eq_append zero_le)

lemma map_shift_upt: "k \<le> n \<Longrightarrow> map (\<lambda>j. f (k + j)) [0..<n - k] = map f [k..<n]"
proof -
  assume kn: "k \<le> n"
  have "map (\<lambda>j. f (k + j)) [0..<n - k] = map f (map (\<lambda>j. j + k) [0..<n - k])"
    by (simp add: add.commute)
  also have "map (\<lambda>j. j + k) [0..<n - k] = [k..<n - k + k]"
    by (rule map_add_upt)
  also have "n - k + k = n" using kn by simp
  finally show ?thesis .
qed

text \<open>The run without a fault.\<close>

lemma run_without_fault:
  assumes pos: "0 < length args" and len: "length rows = length args"
    and rowsOK: "\<forall>j<length args. row (args ! j) = Inr (rows ! j)"
    and prepN: "prepare_res drvN (prepare_calls cn0) (Query stmt) = None"
    and allN: "\<forall>i<length args.
                 exec_res drvN (length (exec_log cn0) + i) (Query stmt) (rows ! i) = Inr (rs i)"
    and ids: "eleType stmt = eleTypeInsert \<longrightarrow> (\<forall>i<length args. lastInsertId (rs i) = Inr (gen i))"
  shows "retryOnBadConn (\<lambda>c a. prepareAndIterate row drvN c stmt a) cn0 args
           = (Inr (\<lparr>idList = (if eleType stmt = eleTypeInsert
                                then Some (map gen [0..<length args]) else None),
                     rowAffected = sum_list (map (\<lambda>i. rowsAffected (rs i)) [0..<length args])\<rparr>,
                   None),
              \<lparr>prepare_calls = Suc (prepare_calls cn0), close_calls = Suc (close_calls cn0),
               exec_log = exec_log cn0 @ map (Pair (Query stmt)) rows\<rparr>)"
proof -
  let ?N = "length args"
  have idok: "\<And>i. i < ?N \<Longrightarrow> idOk stmt (rs i)" using ids by (simp add: idOk_def)
  have "\<forall>j<?N. row (args ! j) = Inr (rows ! j)
            \<and> exec_res drvN (length (exec_log cn0) + j) (Query stmt) (rows ! j) = Inr (rs j)
            \<and> idOk stmt (rs j)"
    using rowsOK allN idok by simp
  note run = prepareAndIterate_ok [OF prepN len this]
  have g: "eleType stmt = eleTypeInsert \<longrightarrow> (\<forall>i\<in>set [0..<?N]. lastInsertId (rs i) = Inr (gen i))"
    using ids by simp
  have ne: "[0..<?N] \<noteq> []" using pos by auto
  show ?thesis
    unfolding retryOnBadConn_def run foldl_accRow [OF g]
    using ne by (simp add: emptyResult_def sliceItems_def)
qed

text \<open>The run that loses the connection at row \<open>k\<close> and is retried on the suffix.\<close>

lemma retry_after_fault:
  assumes k: "k < length args" and len: "length rows = length args"
    and rowsOK: "\<forall>j<length args. row (args ! j) = Inr (rows ! j)"
    and prepF1: "prepare_res drvF (prepare_calls cn) (Query stmt) = None"
    and prepF2: "prepare_res drvF (Suc (prepare_calls cn)) (Query stmt) = None"
    and before: "\<forall>i<k. exec_res drvF (length (exec_log cn) + i) (Query stmt) (rows ! i) = Inr (rs i)"
    and fault: "exec_res drvF (length (exec_log cn) + k) (Query stmt) (rows ! k) = Inl ErrBadConn"
    and after: "\<forall>i<length args. k \<le> i \<longrightarrow>
                  exec_res drvF (length (exec_log cn) + Suc i) (Query stmt) (rows ! i) = Inr (rs i)"
    and ids: "eleType stmt = eleTypeInsert \<longrightarrow> (\<forall>i<length args. lastInsertId (rs i) = Inr (gen i))"
  shows "retryOnBadConn (\<lambda>c a. prepareAndIterate row drvF c stmt a) cn args
           = (Inr (\<lparr>idList = (if eleType stmt = eleTypeInsert
                                then Some (map gen [0..<length args]) else None),
                     rowAffected = sum_list (map (\<lambda>i. rowsAffected (rs i)) [0..<length args])\<rparr>,
                   None),
              \<lparr>prepare_calls = Suc (Suc (prepare_calls cn)), close_calls = Suc (Suc (close_calls cn)),
               exec_log = exec_log cn @ map (Pair (Query stmt)) (take (Suc k) rows)
                                      @ map (Pair (Query stmt)) (drop k rows)\<rparr>)"
proof -
  let ?N = "length args"
  let ?q = "Query stmt"
  have idok: "\<And>i. i < ?N \<Longrightarrow> idOk stmt (rs i)" using ids by (simp add: idOk_def)
  \<comment> \<open>the first run, up to the fault\<close>
  have a: "\<forall>j<k. row (args ! j) = Inr (rows ! j)
            \<and> exec_res drvF (length (exec_log cn) + j) ?q (rows ! j) = Inr (rs j) \<and> idOk stmt (rs j)"
    using rowsOK before idok k by simp
  have b: "row (args ! k) = Inr (rows ! k)
            \<and> exec_res drvF (length (exec_log cn) + k) ?q (rows ! k) = Inl ErrBadConn"
    using rowsOK fault k by simp
  let ?cn1 = "\<lparr>prepare_calls = Suc (prepare_calls cn), close_calls = Suc (close_calls cn),
               exec_log = exec_log cn @ map (Pair ?q) (take (Suc k) rows)\<rparr>"
  have run1: "prepareAndIterate row drvF cn stmt args
                = (Inr (k, foldl (accRow stmt) emptyResult (map rs [0..<k]), Some ErrBadConn), ?cn1)"
    by (rule prepareAndIterate_fault [OF prepF1 k len a b])
  \<comment> \<open>the retry on the suffix\<close>
  have log1: "length (exec_log ?cn1) = length (exec_log cn) + Suc k"
    using k len by simp
  have len': "length (drop k rows) = length (drop k args)" using len by simp
  have c: "\<forall>j<length (drop k args). row (drop k args ! j) = Inr (drop k rows ! j)
            \<and> exec_res drvF (length (exec_log ?cn1) + j) ?q (drop k rows ! j) = Inr (rs (k + j))
            \<and> idOk stmt (rs (k + j))"
  proof (intro allI impI)
    fix j assume "j < length (drop k args)"
    then have kj: "k + j < ?N" by simp
    have r: "row (drop k args ! j) = Inr (drop k rows ! j)"
      using rowsOK [rule_format, OF kj] k len by simp
    have e: "length (exec_log ?cn1) + j = length (exec_log cn) + Suc (k + j)"
      using log1 by simp
    have "exec_res drvF (length (exec_log cn) + Suc (k + j)) ?q (rows ! (k + j)) = Inr (rs (k + j))"
      by (rule after [rule_format, OF kj]) simp
    then have x: "exec_res drvF (length (exec_log ?cn1) + j) ?q (drop k rows ! j) = Inr (rs (k + j))"
      unfolding e using k len by simp
    show "row (drop k args ! j) = Inr (drop k rows ! j)
            \<and> exec_res drvF (length (exec_log ?cn1) + j) ?q (drop k rows ! j) = Inr (rs (k + j))
            \<and> idOk stmt (rs (k + j))"
      using r x idok [OF kj] by simp
  qed
  have prepF2': "prepare_res drvF (prepare_calls ?cn1) ?q = None"
    using prepF2 by simp
  have run2: "prepareAndIterate row drvF ?cn1 stmt (drop k args)
         = (Inr (?N - k, foldl (accRow stmt) emptyResult (map rs [k..<?N]), None),
            \<lparr>prepare_calls = Suc (Suc (prepare_calls cn)), close_calls = Suc (Suc (close_calls cn)),
             exec_log = exec_log cn @ map (Pair ?q) (take (Suc k) rows) @ map (Pair ?q) (drop k rows)\<rparr>)"
    using prepareAndIterate_ok [OF prepF2' len' c] map_shift_upt [of k ?N rs] k
    by simp
  \<comment> \<open>the merge\<close>
  have g1: "eleType stmt = eleTypeInsert \<longrightarrow> (\<forall>i\<in>set [0..<k]. lastInsertId (rs i) = Inr (gen i))"
    using ids k by simp
  have g2: "eleType stmt = eleTypeInsert \<longrightarrow> (\<forall>i\<in>set [k..<?N]. lastInsertId (rs i) = Inr (gen i))"
    using ids by simp
  have ne: "[k..<?N] \<noteq> []" using k by auto
  have ids_split: "map gen [0..<k] @ map gen [k..<?N] = map gen [0..<?N]"
    using upt_split [of k ?N] k by (metis less_imp_le_nat map_append)
  have sum_split: "sum_list (map (\<lambda>i. rowsAffected (rs i)) [0..<k])
                   + sum_list (map (\<lambda>i. rowsAffected (rs i)) [k..<?N])
                   = sum_list (map (\<lambda>i. rowsAffected (rs i)) [0..<?N])"
    using upt_split [of k ?N] k by (metis less_imp_le_nat map_append sum_list_append)
  show ?thesis
    unfolding retryOnBadConn_def run1
    apply (simp add: run2 del: upt_Suc)
    unfolding foldl_accRow [OF g1] foldl_accRow [OF g2]
    using ne ids_split sum_split
    by (simp add: emptyResult_def sliceItems_def appendSlice_def)
qed

lemma retryOnBadConn_cong:
  assumes "\<And>c n. doExec c (drop n args) = doExec' c (drop n args)"
  shows "retryOnBadConn doExec cn args = retryOnBadConn doExec' cn args"
proof -
  have "doExec cn args = doExec' cn args" using assms [of cn 0] by simp
  then show ?thesis
    by (auto simp: retryOnBadConn_def assms split: prod.splits sum.splits)
qed

lemma validateList_suffix:
  "validateList stmt i args = None \<Longrightarrow> validateList stmt j (drop k args) = None"
proof (induction args arbitrary: i j k)
  case Nil
  then show ?case by simp
next
  case (Cons v args)
  from Cons.prems have tl: "validateList stmt (Suc i) args = None"
    by (auto split: option.splits if_splits)
  show ?case
  proof (cases k)
    case 0
    have "validateList stmt j (v # args) = None"
      using Cons.prems Cons.IH [OF tl, of "Suc j" 0]
      by (auto split: option.splits if_splits)
    then show ?thesis using 0 by simp
  next
    case (Suc k')
    then show ?thesis using Cons.IH [OF tl, of j k'] by simp
  qed
qed

lemma validateMap_suffix:
  "validateMap stmt i args = None \<Longrightarrow> validateMap stmt j (drop k args) = None"
proof (induction args arbitrary: i j k)
  case Nil
  then show ?case by simp
next
  case (Cons v args)
  from Cons.prems have tl: "validateMap stmt (Suc i) args = None"
    by (auto split: option.splits if_splits)
  show ?case
  proof (cases k)
    case 0
    have "validateMap stmt j (v # args) = None"
      using Cons.prems Cons.IH [OF tl, of "Suc j" 0]
      by (auto split: option.splits if_splits)
    then show ?thesis using 0 by simp
  next
    case (Suc k')
    then show ?thesis using Cons.IH [OF tl, of j k'] by simp
  qed
qed

lemma execWithNestedList_validated:
  "validateList stmt 0 args = None \<Longrightarrow>
   execWithNestedList drv cn stmt args
     = retryOnBadConn (\<lambda>c a. prepareAndIterate rowOfList drv c stmt a) cn args"
  unfolding execWithNestedList_def
  by (rule retryOnBadConn_cong) (simp add: doExecWithNestedList_def validateList_suffix)

lemma execWithNestedMap_validated:
  "validateMap stmt 0 args = None \<Longrightarrow>
   execWithNestedMap drv cn stmt args
     = retryOnBadConn (\<lambda>c a. prepareAndIterate (rowOfMap stmt) drv c stmt a) cn args"
  unfolding execWithNestedMap_def
  by (rule retryOnBadConn_cong) (simp add: doExecWithNestedMap_def validateMap_suffix)

lemma execWithStructList_unfold:
  "execWithStructList drv cn stmt args
     = retryOnBadConn (\<lambda>c a. prepareAndIterate (rowOfStruct stmt) drv c stmt a) cn args"
  by (simp add: execWithStructList_def doExecWithStructList_def)

lemma rows_nth:
  assumes "map f args = map Inr rows"
  shows "length rows = length args" and "\<forall>j<length args. f (args ! j) = Inr (rows ! j)"
proof -
  show len: "length rows = length args" using assms by (metis length_map)
  show "\<forall>j<length args. f (args ! j) = Inr (rows ! j)"
  proof (intro allI impI)
    fix j assume j: "j < length args"
    have "map f args ! j = map Inr rows ! j" using assms by simp
    then show "f (args ! j) = Inr (rows ! j)" using j len by simp
  qed
qed

lemma rowOfList_rows:
  "map flattenToList args = map Inr rows \<Longrightarrow> map rowOfList args = map Inr rows"
proof -
  assume a: "map flattenToList args = map Inr rows"
  have "\<forall>j<length args. rowOfList (args ! j) = Inr (rows ! j)"
    using rows_nth(2) [OF a] by (simp add: rowOfList_def)
  then show ?thesis using rows_nth(1) [OF a] by (simp add: list_eq_iff_nth_eq)
qed

text \<open>
  \<^bold>\<open>C4\<close>.  A batch of \<open>N\<close> elements whose argument lists are \<open>rows\<close>; \<open>rs i\<close> is the
  store's answer for row \<open>i\<close>, and \<open>gen i\<close> the id it generates for it when the statement
  is an insert.  The store \<open>drvF\<close> answers rows \<open>0..k-1\<close>, fails the execution of row \<open>k\<close>
  with \<^verbatim>\<open>driver.ErrBadConn\<close>, and answers every row of the retried suffix \<open>k..N-1\<close>; the
  store \<open>drvN\<close> answers all rows without a fault.  Then, for a batch of nested lists, of
  maps, or of structs alike (each under what its own path checks), the call on \<open>drvF\<close>
  and the call on \<open>drvN\<close> both return no error and the same result \<open>merged\<close>: for an
  insert statement the ids \<open>gen 0, ..., gen (N-1)\<close> in row order, otherwise no id list,
  and the sum of the affected-row counts of all \<open>N\<close> rows.  On \<open>drvF\<close> the statement was
  prepared and closed twice and the executions were rows \<open>0..k\<close>, then rows \<open>k..N-1\<close>; on
  \<open>drvN\<close> it was prepared and closed once and the executions were rows \<open>0..N-1\<close>.
\<close>

theorem batch_retry_merges_to_fault_free_result:
  fixes rs :: "nat \<Rightarrow> sql_result" and gen :: "nat \<Rightarrow> 64 word"
  assumes k: "k < length args"
    and prepF1: "prepare_res drvF (prepare_calls cn) (Query stmt) = None"
    and prepF2: "prepare_res drvF (Suc (prepare_calls cn)) (Query stmt) = None"
    and before: "\<forall>i<k. exec_res drvF (length (exec_log cn) + i) (Query stmt) (rows ! i) = Inr (rs i)"
    and fault: "exec_res drvF (length (exec_log cn) + k) (Query stmt) (rows ! k) = Inl ErrBadConn"
    and after: "\<forall>i<length args. k \<le> i \<longrightarrow>
                  exec_res drvF (length (exec_log cn) + Suc i) (Query stmt) (rows ! i) = Inr (rs i)"
    and prepN: "prepare_res drvN (prepare_calls cn0) (Query stmt) = None"
    and allN: "\<forall>i<length args.
                  exec_res drvN (length (exec_log cn0) + i) (Query stmt) (rows ! i) = Inr (rs i)"
    and ids: "eleType stmt = eleTypeInsert \<longrightarrow> (\<forall>i<length args. lastInsertId (rs i) = Inr (gen i))"
  shows
    "let merged = \<lparr>idList = (if eleType stmt = eleTypeInsert
                             then Some (map gen [0..<length args]) else None),
                   rowAffected = sum_list (map (\<lambda>i. rowsAffected (rs i)) [0..<length args])\<rparr>;
         cnF = \<lparr>prepare_calls = Suc (Suc (prepare_calls cn)),
                close_calls = Suc (Suc (close_calls cn)),
                exec_log = exec_log cn @ map (Pair (Query stmt)) (take (Suc k) rows)
                                       @ map (Pair (Query stmt)) (drop k rows)\<rparr>;
         cnN = \<lparr>prepare_calls = Suc (prepare_calls cn0), close_calls = Suc (close_calls cn0),
                exec_log = exec_log cn0 @ map (Pair (Query stmt)) rows\<rparr>
     in (validateList stmt 0 args = None \<and> map flattenToList args = map Inr rows \<longrightarrow>
           execWithNestedList drvF cn stmt args = (Inr (merged, None), cnF)
         \<and> execWithNestedList drvN cn0 stmt args = (Inr (merged, None), cnN))
      \<and> (validateMap stmt 0 args = None \<and> map (rowOfMap stmt) args = map Inr rows \<longrightarrow>
           execWithNestedMap drvF cn stmt args = (Inr (merged, None), cnF)
         \<and> execWithNestedMap drvN cn0 stmt args = (Inr (merged, None), cnN))
      \<and> (map (rowOfStruct stmt) args = map Inr rows \<longrightarrow>
           execWithStructList drvF cn stmt args = (Inr (merged, None), cnF)
         \<and> execWithStructList drvN cn0 stmt args = (Inr (merged, None), cnN))"
proof -
  have pos: "0 < length args" using k by (cases args) auto
  have list: "execWithNestedList drvF cn stmt args = (Inr (merged, None), cnF)
            \<and> execWithNestedList drvN cn0 stmt args = (Inr (merged, None), cnN)"
    if v: "validateList stmt 0 args = None" and r: "map flattenToList args = map Inr rows"
      and d: "merged = \<lparr>idList = (if eleType stmt = eleTypeInsert
                             then Some (map gen [0..<length args]) else None),
                   rowAffected = sum_list (map (\<lambda>i. rowsAffected (rs i)) [0..<length args])\<rparr>"
         "cnF = \<lparr>prepare_calls = Suc (Suc (prepare_calls cn)),
                close_calls = Suc (Suc (close_calls cn)),
                exec_log = exec_log cn @ map (Pair (Query stmt)) (take (Suc k) rows)
                                       @ map (Pair (Query stmt)) (drop k rows)\<rparr>"
         "cnN = \<lparr>prepare_calls = Suc (prepare_calls cn0), close_calls = Suc (close_calls cn0),
                exec_log = exec_log cn0 @ map (Pair (Query stmt)) rows\<rparr>"
    for merged cnF cnN
  proof -
    note rr = rows_nth [OF rowOfList_rows [OF r]]
    show ?thesis
      unfolding execWithNestedList_validated [OF v] d
      using retry_after_fault [OF k rr prepF1 prepF2 before fault after ids]
            run_without_fault [OF pos rr prepN allN ids]
      by simp
  qed
  have maps: "execWithNestedMap drvF cn stmt args = (Inr (merged, None), cnF)
            \<and> execWithNestedMap drvN cn0 stmt args = (Inr (merged, None), cnN)"
    if v: "validateMap stmt 0 args = None" and r: "map (rowOfMap stmt) args = map Inr rows"
      and d: "merged = \<lparr>idList = (if eleType stmt = eleTypeInsert
                             then Some (map gen [0..<length args]) else None),
                   rowAffected = sum_list (map (\<lambda>i. rowsAffected (rs i)) [0..<length args])\<rparr>"
         "cnF = \<lparr>prepare_calls = Suc (Suc (prepare_calls cn)),
                close_calls = Suc (Suc (close_calls cn)),
                exec_log = exec_log cn @ map (Pair (Query stmt)) (take (Suc k) rows)
                                       @ map (Pair (Query stmt)) (drop k rows)\<rparr>"
         "cnN = \<lparr>prepare_calls = Suc (prepare_calls cn0), close_calls = Suc (close_calls cn0),
                exec_log = exec_log cn0 @ map (Pair (Query stmt)) rows\<rparr>"
    for merged cnF cnN
  proof -
    note rr = rows_nth [OF r]
    show ?thesis
      unfolding execWithNestedMap_validated [OF v] d
      using retry_after_fault [OF k rr prepF1 prepF2 before fault after ids]
            run_without_fault [OF pos rr prepN allN ids]
      by simp
  qed
  have structs: "execWithStructList drvF cn stmt args = (Inr (merged, None), cnF)
            \<and> execWithStructList drvN cn0 stmt args = (Inr (merged, None), cnN)"
    if r: "map (rowOfStruct stmt) args = map Inr rows"
      and d: "merged = \<lparr>idList = (if eleType stmt = eleTypeInsert
                             then Some (map gen [0..<length args]) else None),
                   rowAffected = sum_list (map (\<lambda>i. rowsAffected (rs i)) [0..<length args])\<rparr>"
         "cnF = \<lparr>prepare_calls = Suc (Suc (prepare_calls cn)),
                close_calls = Suc (Suc (close_calls cn)),
                exec_log = exec_log cn @ map (Pair (Query stmt)) (take (Suc k) rows)
                                       @ map (Pair (Query stmt)) (drop k rows)\<rparr>"
         "cnN = \<lparr>prepare_calls = Suc (prepare_calls cn0), close_calls = Suc (close_calls cn0),
                exec_log = exec_log cn0 @ map (Pair (Query stmt)) rows\<rparr>"
    for merged cnF cnN
  proof -
    note rr = rows_nth [OF r]
    show ?thesis
      unfolding execWithStructList_unfold d
      using retry_after_fault [OF k rr prepF1 prepF2 before fault after ids]
            run_without_fault [OF pos rr prepN allN ids]
      by simp
  qed
  show ?thesis
    unfolding Let_def using list maps structs by blast
qed

text \<open>Three rows, the connection lost at the second execution, as a batch of lists, of
  maps and of structs.\<close>

theorem batch_retry_merges_to_fault_free_result_witness:
  "execWithNestedList ex_faulty_driver ex_conn ex_insert (map VTSlice ex_rows)
     = (Inr (\<lparr>idList = Some [100, 101, 102], rowAffected = 3\<rparr>, None),
        \<lparr>prepare_calls = 2, close_calls = 2,
         exec_log = map (Pair ''INSERT INTO users(age) VALUES (?)'')
                        [[VScalar 10], [VScalar 11], [VScalar 11], [VScalar 12]]\<rparr>)
   \<and> execWithNestedMap ex_faulty_driver ex_conn ex_insert ex_map_batch
     = (Inr (\<lparr>idList = Some [100, 101, 102], rowAffected = 3\<rparr>, None),
        \<lparr>prepare_calls = 2, close_calls = 2,
         exec_log = map (Pair ''INSERT INTO users(age) VALUES (?)'')
                        [[VScalar 10], [VScalar 11], [VScalar 11], [VScalar 12]]\<rparr>)
   \<and> execWithStructList ex_faulty_driver ex_conn ex_insert ex_struct_batch
     = (Inr (\<lparr>idList = Some [100, 101, 102], rowAffected = 3\<rparr>, None),
        \<lparr>prepare_calls = 2, close_calls = 2,
         exec_log = map (Pair ''INSERT INTO users(age) VALUES (?)'')
                        [[VScalar 10], [VScalar 11], [VScalar 11], [VScalar 12]]\<rparr>)
   \<and> execWithNestedList ex_driver ex_conn ex_insert (map VTSlice ex_rows)
     = (Inr (\<lparr>idList = Some [100, 101, 102], rowAffected = 3\<rparr>, None),
        \<lparr>prepare_calls = 1, close_calls = 1,
         exec_log = map (Pair ''INSERT INTO users(age) VALUES (?)'')
                        [[VScalar 10], [VScalar 11], [VScalar 12]]\<rparr>)"
proof -
  have all3: "\<And>P. (\<forall>i<3::nat. P i) = (P 0 \<and> P (Suc 0) \<and> P (Suc (Suc 0)))"
    by (auto simp: numeral_3_eq_3 less_Suc_eq)
  have upt3: "[0..<3] = [0, Suc 0, Suc (Suc 0)]"
    by (simp add: numeral_3_eq_3)
  have q: "Query ex_insert = ''INSERT INTO users(age) VALUES (?)''"
    and ins: "eleType ex_insert = eleTypeInsert"
    and cols: "columnMention ex_insert = [NewColumnBind ''Age'' 32]"
    by (simp_all add: ex_insert_def)
  have inst:
    "let merged = \<lparr>idList = (if eleType ex_insert = eleTypeInsert
                             then Some (map ex_gen [0..<length args]) else None),
                   rowAffected = sum_list (map (\<lambda>i. rowsAffected (ex_answer i)) [0..<length args])\<rparr>;
         cnF = \<lparr>prepare_calls = Suc (Suc (prepare_calls ex_conn)),
                close_calls = Suc (Suc (close_calls ex_conn)),
                exec_log = exec_log ex_conn @ map (Pair (Query ex_insert)) (take (Suc 1) ex_rows)
                                       @ map (Pair (Query ex_insert)) (drop 1 ex_rows)\<rparr>;
         cnN = \<lparr>prepare_calls = Suc (prepare_calls ex_conn), close_calls = Suc (close_calls ex_conn),
                exec_log = exec_log ex_conn @ map (Pair (Query ex_insert)) ex_rows\<rparr>
     in (validateList ex_insert 0 args = None \<and> map flattenToList args = map Inr ex_rows \<longrightarrow>
           execWithNestedList ex_faulty_driver ex_conn ex_insert args = (Inr (merged, None), cnF)
         \<and> execWithNestedList ex_driver ex_conn ex_insert args = (Inr (merged, None), cnN))
      \<and> (validateMap ex_insert 0 args = None \<and> map (rowOfMap ex_insert) args = map Inr ex_rows \<longrightarrow>
           execWithNestedMap ex_faulty_driver ex_conn ex_insert args = (Inr (merged, None), cnF)
         \<and> execWithNestedMap ex_driver ex_conn ex_insert args = (Inr (merged, None), cnN))
      \<and> (map (rowOfStruct ex_insert) args = map Inr ex_rows \<longrightarrow>
           execWithStructList ex_faulty_driver ex_conn ex_insert args = (Inr (merged, None), cnF)
         \<and> execWithStructList ex_driver ex_conn ex_insert args = (Inr (merged, None), cnN))"
    if l: "length args = 3" for args
  proof (rule batch_retry_merges_to_fault_free_result)
    show "1 < length args" using l by simp
    show "prepare_res ex_faulty_driver (prepare_calls ex_conn) (Query ex_insert) = None"
      by (simp add: ex_faulty_driver_def)
    show "prepare_res ex_faulty_driver (Suc (prepare_calls ex_conn)) (Query ex_insert) = None"
      by (simp add: ex_faulty_driver_def)
    show "\<forall>i<1. exec_res ex_faulty_driver (length (exec_log ex_conn) + i) (Query ex_insert) (ex_rows ! i)
              = Inr (ex_answer i)"
      by (simp add: ex_faulty_driver_def ex_conn_def)
    show "exec_res ex_faulty_driver (length (exec_log ex_conn) + 1) (Query ex_insert) (ex_rows ! 1)
              = Inl ErrBadConn"
      by (simp add: ex_faulty_driver_def ex_conn_def)
    show "\<forall>i<length args. 1 \<le> i \<longrightarrow>
              exec_res ex_faulty_driver (length (exec_log ex_conn) + Suc i) (Query ex_insert) (ex_rows ! i)
              = Inr (ex_answer i)"
      unfolding l all3 by (simp add: ex_faulty_driver_def ex_conn_def)
    show "prepare_res ex_driver (prepare_calls ex_conn) (Query ex_insert) = None"
      by (simp add: ex_driver_def)
    show "\<forall>i<length args.
              exec_res ex_driver (length (exec_log ex_conn) + i) (Query ex_insert) (ex_rows ! i)
              = Inr (ex_answer i)"
      unfolding l all3 by (simp add: ex_driver_def ex_conn_def)
    show "eleType ex_insert = eleTypeInsert \<longrightarrow>
              (\<forall>i<length args. lastInsertId (ex_answer i) = Inr (ex_gen i))"
      by (simp add: ex_answer_def ex_gen_def)
  qed
  have vals: "map ex_gen [0, Suc 0, Suc (Suc 0)] = [100, 101, 102]"
    "sum_list (map (\<lambda>i. rowsAffected (ex_answer i)) [0, Suc 0, Suc (Suc 0)]) = 3"
    by (simp_all add: ex_gen_def ex_answer_def)
  have lists: "validateList ex_insert 0 (map VTSlice ex_rows) = None"
    "map flattenToList (map VTSlice ex_rows) = map Inr ex_rows"
    by (simp_all add: ex_rows_def cols)
  have maps: "validateMap ex_insert 0 ex_map_batch = None"
    "map (rowOfMap ex_insert) ex_map_batch = map Inr ex_rows"
    by (simp_all add: ex_map_batch_def ex_rows_def cols rowOfMap_def sliceItems_def NewColumnBind_def)
  have structs: "map (rowOfStruct ex_insert) ex_struct_batch = map Inr ex_rows"
    by (simp add: ex_struct_batch_def ex_rows_def cols rowOfStruct_def NewColumnBind_def)
  have logs: "exec_log ex_conn = []" "prepare_calls ex_conn = 0" "close_calls ex_conn = 0"
    by (simp_all add: ex_conn_def)
  have l1: "length (map VTSlice ex_rows) = 3" and l2: "length ex_map_batch = 3"
    and l3: "length ex_struct_batch = 3"
    by (simp_all add: ex_rows_def ex_map_batch_def ex_struct_batch_def)
  have rowsF: "map (Pair ''INSERT INTO users(age) VALUES (?)'') (take (Suc 1) ex_rows)
                @ map (Pair ''INSERT INTO users(age) VALUES (?)'') (drop 1 ex_rows)
              = map (Pair ''INSERT INTO users(age) VALUES (?)'')
                    [[VScalar 10], [VScalar 11], [VScalar 11], [VScalar 12]]"
    by (simp add: ex_rows_def)
  have rowsN: "ex_rows = [[VScalar 10], [VScalar 11], [VScalar 12]]"
    by (simp add: ex_rows_def)
  have two: "Suc (Suc 0) = 2" by simp
  note i1 = inst [OF l1, unfolded Let_def l1 upt3 vals logs q ins append_Nil rowsF two, THEN conjunct1, rule_format, OF conjI [OF lists]]
  note i2 = inst [OF l2, unfolded Let_def l2 upt3 vals logs q ins append_Nil rowsF two, THEN conjunct2, THEN conjunct1, rule_format, OF conjI [OF maps]]
  note i3 = inst [OF l3, unfolded Let_def l3 upt3 vals logs q ins append_Nil rowsF two, THEN conjunct2, THEN conjunct2, rule_format, OF structs]
  have one: "Suc 0 = 1" by simp
  show ?thesis
    using i1 i2 i3 unfolding rowsN one by (simp add: ex_gen_def ex_answer_def)
qed

section \<open>Conditional refinement: properties\<close>

text \<open>What one call of \<^verbatim>\<open>RefineStatement\<close> returns and leaves behind, for a statement
  whose arrays are allocated: the error and the refined statement are the normalizer's
  answer on the receiver's content with the text refined; the receiver reads as
  before.\<close>

lemma RefineStatement_reads:
  assumes c: "\<forall>a. clause stmt = Some a \<longrightarrow> a < nextAddr st"
    and m: "\<forall>b. columnMention stmt = Some b \<longrightarrow> b < nextAddr st"
    and run: "RefineStatement norm st stmt params = ((r, e), st')"
  shows "e = fst (norm (refinedText (load st stmt) params))"
    and "load st' r = snd (norm (refinedText (load st stmt) params))"
    and "Query r = Query (snd (norm (refinedText (load st stmt) params)))"
    and "load st' stmt = load st stmt"
    and "nextAddr st \<le> nextAddr st'"
proof -
  let ?a = "nextAddr st"
  let ?st1 = "snd (cloneStored st stmt)"
  let ?refined = "fst (cloneStored st stmt)"
  have ca: "clause stmt \<noteq> Some ?a" using c by auto
  have mb: "columnMention stmt \<noteq> Some (Suc ?a)" using m by auto
  have items: "clauseItems ?st1 (clause stmt) = clauseItems st (clause stmt)"
    using ca by (cases "clause stmt") (auto simp: cloneStored_def clauseItems_def Let_def)
  let ?in = "?refined\<lparr>Query := refineQuery params (clauseItems ?st1 (clause stmt)) (Query ?refined)\<rparr>"
  have inp: "load ?st1 ?in = refinedText (load st stmt) params"
    by (simp add: items) (simp add: cloneStored_def load_def refinedText_def Let_def clauseItems_def
        columnItems_def foldl_snoc_id)
  obtain err out where no: "norm (refinedText (load st stmt) params) = (err, out)"
    by (cases "norm (refinedText (load st stmt) params)")
  have refs: "clause ?in = Some ?a" "columnMention ?in = Some (Suc ?a)"
    by (simp_all add: cloneStored_def Let_def)
  have wb: "writeBack ?st1 ?in out =
      (\<lparr>eleType = eleType out, stmtId = stmtId out, Query = Query out,
        clause = Some ?a, columnMention = Some (Suc ?a), HoldedQuery = HoldedQuery out\<rparr>,
       ?st1\<lparr>clauseArrays := (clauseArrays ?st1)(?a := clause out),
            columnArrays := (columnArrays ?st1)(Suc ?a := columnMention out)\<rparr>)"
    unfolding writeBack_def refs by (simp add: Let_def)
  have res: "((r, e), st') =
      ((\<lparr>eleType = eleType out, stmtId = stmtId out, Query = Query out,
         clause = Some ?a, columnMention = Some (Suc ?a), HoldedQuery = HoldedQuery out\<rparr>, err),
       ?st1\<lparr>clauseArrays := (clauseArrays ?st1)(?a := clause out),
            columnArrays := (columnArrays ?st1)(Suc ?a := columnMention out)\<rparr>)"
    using run [symmetric] inp no wb
    by (simp add: RefineStatement_def normalizeStored_def split_beta)
  show "e = fst (norm (refinedText (load st stmt) params))" using res no by simp
  show "load st' r = snd (norm (refinedText (load st stmt) params))"
    using res no by (simp add: load_def clauseItems_def columnItems_def)
  show "Query r = Query (snd (norm (refinedText (load st stmt) params)))" using res no by simp
  show "load st' stmt = load st stmt"
    using res ca mb
    by (cases "clause stmt"; cases "columnMention stmt")
       (auto simp: load_def clauseItems_def columnItems_def cloneStored_def Let_def)
  show "nextAddr st \<le> nextAddr st'"
    using res by (simp add: cloneStored_def Let_def)
qed

text \<open>
  \<^bold>\<open>C5\<close>.  A registered statement whose arrays are allocated in the store is refined
  twice with the same presence map, the second time in the store the first call left.
  Both calls return the same text and the same error, the two refined statements read
  the same, and after each call the registered statement reads as it did before: its
  query text, its clause sequence and its column-binding sequence are untouched.
\<close>

theorem RefineStatement_twice_same_text_original_intact:
  assumes c: "\<forall>a. clause stmt = Some a \<longrightarrow> a < nextAddr st"
    and m: "\<forall>b. columnMention stmt = Some b \<longrightarrow> b < nextAddr st"
    and run1: "RefineStatement norm st stmt params = ((r1, e1), st1)"
    and run2: "RefineStatement norm st1 stmt params = ((r2, e2), st2)"
  shows "Query r1 = Query r2 \<and> e1 = e2 \<and> load st1 r1 = load st2 r2
       \<and> load st1 stmt = load st stmt \<and> load st2 stmt = load st stmt"
proof -
  note first = RefineStatement_reads [OF c m run1]
  have c1: "\<forall>a. clause stmt = Some a \<longrightarrow> a < nextAddr st1"
    using c first(5) by (meson less_le_trans)
  have m1: "\<forall>b. columnMention stmt = Some b \<longrightarrow> b < nextAddr st1"
    using m first(5) by (meson less_le_trans)
  note second = RefineStatement_reads [OF c1 m1 run2]
  show ?thesis
    using first(1-4) second(1-4) by simp
qed

lemma ex_conditional_allocated:
  "\<forall>a. clause ex_conditional = Some a \<longrightarrow> a < nextAddr ex_store"
  "\<forall>b. columnMention ex_conditional = Some b \<longrightarrow> b < nextAddr ex_store"
  by (simp_all add: ex_conditional_def ex_store_def)

theorem RefineStatement_twice_same_text_original_intact_witness:
  "Query (fst (fst (RefineStatement ex_norm ex_store ex_conditional (Some [''age'' \<mapsto> VScalar 30]))))
     = Query (fst (fst (RefineStatement ex_norm
                 (snd (RefineStatement ex_norm ex_store ex_conditional (Some [''age'' \<mapsto> VScalar 30])))
                 ex_conditional (Some [''age'' \<mapsto> VScalar 30]))))
   \<and> load (snd (RefineStatement ex_norm ex_store ex_conditional (Some [''age'' \<mapsto> VScalar 30])))
           ex_conditional
       = load ex_store ex_conditional"
proof -
  let ?p = "Some [''age'' \<mapsto> VScalar 30]"
  obtain r1 e1 st1 where run1: "RefineStatement ex_norm ex_store ex_conditional ?p = ((r1, e1), st1)"
    by (metis prod.collapse)
  obtain r2 e2 st2 where run2: "RefineStatement ex_norm st1 ex_conditional ?p = ((r2, e2), st2)"
    by (metis prod.collapse)
  from RefineStatement_twice_same_text_original_intact
         [OF ex_conditional_allocated run1 run2]
  show ?thesis by (simp add: run1 run2)
qed




text \<open>With a presence map the policies do apply: \<open>age\<close> is present, \<open>name\<close> is absent, so
  both fragments of \<open>ex_conditional\<close> are spliced in.\<close>

lemma refineQuery_with_map_example:
  "refineQuery (Some [''age'' \<mapsto> VScalar 30]) ex_clauses (Query ex_conditional)
     = ''SELECT id FROM users WHERE 1=1 AND age > :ageAND name IS NULL''"
  by (simp add: ex_clauses_def ex_conditional_def ex_token_def strings_Replace_def)

section \<open>Result cursors: properties\<close>

lemma Scan_body_keeps:
  "transaction (snd (QueryRowResult_Scan_body sc r v)) = transaction r"
  "qrr_pstmt (snd (QueryRowResult_Scan_body sc r v)) = qrr_pstmt r"
  "(qrr_rows (snd (QueryRowResult_Scan_body sc r v)) = None) = (qrr_rows r = None)"
  by (auto simp: QueryRowResult_Scan_body_def split: option.splits prod.splits)

lemma releaseAll_eq:
  "releaseAll r =
     (r\<lparr>qrr_rows := None, qrr_pstmt := (if transaction r then qrr_pstmt r else None)\<rparr>,
      (case qrr_rows r of Some _ \<Rightarrow> [CloseRows] | None \<Rightarrow> [])
      @ (case qrr_pstmt r of Some h \<Rightarrow> if transaction r then [] else [CloseStmt h] | None \<Rightarrow> []))"
  by (cases r) (auto simp: releaseAll_def split: option.splits)

lemma Scan_release:
  "snd (snd (QueryRowResult_Scan sc r v)) =
     (case qrr_rows r of Some _ \<Rightarrow> [CloseRows] | None \<Rightarrow> [])
     @ (case qrr_pstmt r of Some h \<Rightarrow> if transaction r then [] else [CloseStmt h] | None \<Rightarrow> [])"
proof -
  obtain out r1 where b: "QueryRowResult_Scan_body sc r v = (out, r1)"
    by (cases "QueryRowResult_Scan_body sc r v")
  have k: "transaction r1 = transaction r" "qrr_pstmt r1 = qrr_pstmt r"
    "(qrr_rows r1 = None) = (qrr_rows r = None)"
    using Scan_body_keeps [of sc r v] b by simp_all
  have rows: "(case qrr_rows r1 of Some _ \<Rightarrow> [CloseRows] | None \<Rightarrow> [])
            = (case qrr_rows r of Some _ \<Rightarrow> [CloseRows] | None \<Rightarrow> [])"
    using k(3) by (cases "qrr_rows r1"; cases "qrr_rows r") simp_all
  show ?thesis
    by (simp add: QueryRowResult_Scan_def b releaseAll_eq k(1,2) rows cong: option.case_cong)
qed

lemma Scan_state:
  "qrr_rows (fst (snd (QueryRowResult_Scan sc r v))) = None"
  "qrr_pstmt (fst (snd (QueryRowResult_Scan sc r v))) = (if transaction r then qrr_pstmt r else None)"
  "transaction (fst (snd (QueryRowResult_Scan sc r v))) = transaction r"
proof -
  obtain out r1 where b: "QueryRowResult_Scan_body sc r v = (out, r1)"
    by (cases "QueryRowResult_Scan_body sc r v")
  have k: "transaction r1 = transaction r" "qrr_pstmt r1 = qrr_pstmt r"
    using Scan_body_keeps [of sc r v] b by simp_all
  show "qrr_rows (fst (snd (QueryRowResult_Scan sc r v))) = None"
    by (simp add: QueryRowResult_Scan_def b releaseAll_eq)
  show "qrr_pstmt (fst (snd (QueryRowResult_Scan sc r v))) = (if transaction r then qrr_pstmt r else None)"
    by (simp add: QueryRowResult_Scan_def b releaseAll_eq k)
  show "transaction (fst (snd (QueryRowResult_Scan sc r v))) = transaction r"
    by (simp add: QueryRowResult_Scan_def b releaseAll_eq k)
qed

text \<open>
  \<^bold>\<open>C8\<close>.  A single-row fetch with no stored error over a cursor that reports no error
  and has no row returns \<^verbatim>\<open>ErrNoRows\<close>.  Whatever the state, the destination and the
  driver's behaviour (so on every exit path, a panic of the body included), \<^verbatim>\<open>Scan\<close>
  closes the cursor once if it holds one, then closes the prepared statement once if it
  holds one and is not inside a transaction, and nothing else; afterwards it holds no
  cursor, it holds the statement only inside a transaction, and one more \<^verbatim>\<open>Scan\<close> closes
  nothing.
\<close>

theorem QueryRowResult_Scan_no_rows_and_release:
  "(qrr_err r = None \<and> qrr_rows r = Some c \<and> lasterr c = None \<and> stream c = []
      \<longrightarrow> fst (QueryRowResult_Scan sc r v) = Some ErrNoRows)
   \<and> (case QueryRowResult_Scan sc r v of
        (e, r', rel) \<Rightarrow>
          rel = (case qrr_rows r of Some _ \<Rightarrow> [CloseRows] | None \<Rightarrow> [])
                @ (case qrr_pstmt r of
                     Some h \<Rightarrow> if transaction r then [] else [CloseStmt h]
                   | None \<Rightarrow> [])
          \<and> qrr_rows r' = None
          \<and> qrr_pstmt r' = (if transaction r then qrr_pstmt r else None)
          \<and> snd (snd (QueryRowResult_Scan sc' r' v')) = [])"
proof (intro conjI impI)
  assume "qrr_err r = None \<and> qrr_rows r = Some c \<and> lasterr c = None \<and> stream c = []"
  then show "fst (QueryRowResult_Scan sc r v) = Some ErrNoRows"
    by (simp add: QueryRowResult_Scan_def QueryRowResult_Scan_body_def rowsErr_def rowsNext_def)
next
  let ?r' = "fst (snd (QueryRowResult_Scan sc r v))"
  have again: "snd (snd (QueryRowResult_Scan sc' ?r' v')) = []"
    unfolding Scan_release [of sc' ?r' v'] Scan_state
    by (simp split: option.splits)
  show "case QueryRowResult_Scan sc r v of
        (e, r', rel) \<Rightarrow>
          rel = (case qrr_rows r of Some _ \<Rightarrow> [CloseRows] | None \<Rightarrow> [])
                @ (case qrr_pstmt r of
                     Some h \<Rightarrow> if transaction r then [] else [CloseStmt h]
                   | None \<Rightarrow> [])
          \<and> qrr_rows r' = None
          \<and> qrr_pstmt r' = (if transaction r then qrr_pstmt r else None)
          \<and> snd (snd (QueryRowResult_Scan sc' r' v')) = []"
    using Scan_release [of sc r v] Scan_state(1,2) [of sc r v] again
    by (simp add: split_beta)
qed

text \<open>An empty cursor over prepared statement 7, outside a transaction.\<close>

theorem QueryRowResult_Scan_no_rows_and_release_witness:
  "qrr_err ex_empty_fetch = None
   \<and> qrr_rows ex_empty_fetch = Some \<lparr>lasterr = None, stream = []\<rparr>
   \<and> fst (QueryRowResult_Scan ex_scanner ex_empty_fetch [VPtr (Some (VScalar 0))]) = Some ErrNoRows
   \<and> snd (snd (QueryRowResult_Scan ex_scanner ex_empty_fetch [VPtr (Some (VScalar 0))]))
       = [CloseRows, CloseStmt 7]"
proof -
  have h: "qrr_err ex_empty_fetch = None \<and> qrr_rows ex_empty_fetch = Some \<lparr>lasterr = None, stream = []\<rparr>
           \<and> lasterr \<lparr>lasterr = None, stream = []\<rparr> = None \<and> stream \<lparr>lasterr = None, stream = []\<rparr> = []"
    by (simp add: ex_empty_fetch_def newQueryRowResult_def)
  have p: "qrr_pstmt ex_empty_fetch = Some 7" "transaction ex_empty_fetch = False"
    by (simp_all add: ex_empty_fetch_def newQueryRowResult_def)
  from QueryRowResult_Scan_no_rows_and_release
         [of ex_empty_fetch "\<lparr>lasterr = None, stream = []\<rparr>" ex_scanner "[VPtr (Some (VScalar 0))]"
             ex_scanner "[]"]
  show ?thesis using h p by (simp add: split_beta)
qed

text \<open>
  \<^bold>\<open>C9\<close>.  A \<^verbatim>\<open>QueryResult\<close> built by \<^verbatim>\<open>newQueryResultError\<close> from a non-nil error:
  \<^verbatim>\<open>Scan\<close> returns nil, whatever the destination and the driver; the error is to be had
  from \<^verbatim>\<open>GetError\<close> only.
\<close>

theorem QueryResult_Scan_hides_stored_error:
  "QueryResult_Scan sc (newQueryResultError (Some e)) v = Returns None
   \<and> GetError (newQueryResultError (Some e)) = Some e"
  by (simp add: QueryResult_Scan_def newQueryResultError_def GetError_def)

text \<open>\<^verbatim>\<open>QueryRowResult.Scan\<close>, the sibling, returns the stored error.\<close>

lemma QueryRowResult_Scan_returns_stored_error:
  "fst (QueryRowResult_Scan sc (newQueryRowResultError (Some e)) v) = Some e"
  by (simp add: QueryRowResult_Scan_def QueryRowResult_Scan_body_def newQueryRowResultError_def)

lemma idList_addInsertIds:
  "idList (foldl addInsertId p xs) = (if xs = [] then idList p else Some (sliceItems (idList p) @ xs))"
  by (induction xs arbitrary: p) (simp_all add: addInsertId_def sliceItems_def)

lemma rowAffected_addInsertIds: "rowAffected (foldl addInsertId p xs) = rowAffected p"
  by (induction xs arbitrary: p) (simp_all add: addInsertId_def)

text \<open>
  \<^bold>\<open>C10\<close>.  After the ids \<open>x, xs\<close> were captured in this order by \<^verbatim>\<open>addInsertId\<close>,
  \<^verbatim>\<open>LastInsertId\<close> returns \<open>x\<close>, the first of them, and no error; in general it returns
  the head of the id list; on an empty or nil id list it returns 0 and
  \<^verbatim>\<open>ErrNoInsertId\<close>.  \<^verbatim>\<open>RowsAffected\<close> returns the accumulated count and no error.
\<close>

theorem LastInsertId_is_first_id:
  "LastInsertId (foldl addInsertId emptyResult (x # xs)) = (x, None)
   \<and> LastInsertId (p\<lparr>idList := Some (y # ys)\<rparr>) = (y, None)
   \<and> LastInsertId (p\<lparr>idList := Some []\<rparr>) = (0, Some ErrNoInsertId)
   \<and> LastInsertId (p\<lparr>idList := None\<rparr>) = (0, Some ErrNoInsertId)
   \<and> RowsAffected p = (rowAffected p, None)"
  by (simp add: LastInsertId_def RowsAffected_def idList_addInsertIds emptyResult_def sliceItems_def
      addInsertId_def)

end
